theory Spec2Isabelle
  imports Complex_Main
begin

section \<open>JavaScript numbers\<close>

text \<open>
  The program computes with JavaScript numbers. They are modelled as exact reals together
  with the three special values the code relies on (an infinite mass, the guard
  \<^verbatim>\<open>dl || Infinity\<close>, the default bounds \<^verbatim>\<open>-Infinity\<close> and \<^verbatim>\<open>Infinity\<close>, and the
  not-a-number results of \<^verbatim>\<open>0 * Infinity\<close>, \<^verbatim>\<open>0 / 0\<close> and \<^verbatim>\<open>Infinity - Infinity\<close>).
  Rounding and overflow of finite results of the arithmetic are not modelled, and there
  is one zero: a division of a non-zero finite number by zero gives the infinity whose
  sign is the sign of the dividend. Where a claim speaks of a tolerance (the distance
  a rope leaves, the round trip of \<^verbatim>\<open>calcMatrix\<close> and \<^verbatim>\<open>calcFields\<close>), the equalities of
  the model stand for equalities up to rounding. The other statements do not rest on a
  finite result being exact: they restate what the code computes, or they suppose
  finite the values the code computes.
\<close>

datatype number = Fin real | PInf | NInf | NaN

fun neg_n :: "number \<Rightarrow> number" where
  "neg_n (Fin a) = Fin (- a)"
| "neg_n PInf = NInf"
| "neg_n NInf = PInf"
| "neg_n NaN = NaN"

fun add_n :: "number \<Rightarrow> number \<Rightarrow> number" where
  "add_n NaN b = NaN"
| "add_n a NaN = NaN"
| "add_n (Fin a) (Fin b) = Fin (a + b)"
| "add_n PInf NInf = NaN"
| "add_n NInf PInf = NaN"
| "add_n PInf b = PInf"
| "add_n a PInf = PInf"
| "add_n NInf b = NInf"
| "add_n a NInf = NInf"

definition sub_n :: "number \<Rightarrow> number \<Rightarrow> number" where
  "sub_n a b = add_n a (neg_n b)"

fun mul_n :: "number \<Rightarrow> number \<Rightarrow> number" where
  "mul_n NaN b = NaN"
| "mul_n a NaN = NaN"
| "mul_n (Fin a) (Fin b) = Fin (a * b)"
| "mul_n (Fin a) PInf = (if a = 0 then NaN else if 0 < a then PInf else NInf)"
| "mul_n (Fin a) NInf = (if a = 0 then NaN else if 0 < a then NInf else PInf)"
| "mul_n PInf (Fin b) = (if b = 0 then NaN else if 0 < b then PInf else NInf)"
| "mul_n NInf (Fin b) = (if b = 0 then NaN else if 0 < b then NInf else PInf)"
| "mul_n PInf PInf = PInf"
| "mul_n PInf NInf = NInf"
| "mul_n NInf PInf = NInf"
| "mul_n NInf NInf = PInf"

fun div_n :: "number \<Rightarrow> number \<Rightarrow> number" where
  "div_n NaN b = NaN"
| "div_n a NaN = NaN"
| "div_n (Fin a) (Fin b) =
     (if b = 0 then (if a = 0 then NaN else if 0 < a then PInf else NInf)
      else Fin (a / b))"
| "div_n (Fin a) PInf = Fin 0"
| "div_n (Fin a) NInf = Fin 0"
| "div_n PInf (Fin b) = (if 0 \<le> b then PInf else NInf)"
| "div_n NInf (Fin b) = (if 0 \<le> b then NInf else PInf)"
| "div_n PInf PInf = NaN"
| "div_n PInf NInf = NaN"
| "div_n NInf PInf = NaN"
| "div_n NInf NInf = NaN"

text \<open>The comparisons \<^verbatim>\<open><\<close>, \<^verbatim>\<open>>\<close> and \<^verbatim>\<open>!==\<close>: every ordering test on a NaN is false.\<close>

fun lt_n :: "number \<Rightarrow> number \<Rightarrow> bool" where
  "lt_n NaN b = False"
| "lt_n a NaN = False"
| "lt_n (Fin a) (Fin b) = (a < b)"
| "lt_n (Fin a) PInf = True"
| "lt_n NInf (Fin b) = True"
| "lt_n NInf PInf = True"
| "lt_n a b = False"

definition gt_n :: "number \<Rightarrow> number \<Rightarrow> bool" where
  "gt_n a b = lt_n b a"

fun sne_n :: "number \<Rightarrow> number \<Rightarrow> bool" where
  "sne_n NaN b = True"
| "sne_n a NaN = True"
| "sne_n (Fin a) (Fin b) = (a \<noteq> b)"
| "sne_n PInf PInf = False"
| "sne_n NInf NInf = False"
| "sne_n a b = True"

text \<open>\<^verbatim>\<open>Number.isFinite\<close>, and the operand selection of \<^verbatim>\<open>a || b\<close> on numbers (zero and NaN
  are the falsy numbers).\<close>

fun isFinite :: "number \<Rightarrow> bool" where
  "isFinite (Fin a) = True"
| "isFinite a = False"

fun falsy :: "number \<Rightarrow> bool" where
  "falsy (Fin a) = (a = 0)"
| "falsy NaN = True"
| "falsy a = False"

definition or_n :: "number \<Rightarrow> number \<Rightarrow> number" where
  "or_n a b = (if falsy a then b else a)"

text \<open>\<^verbatim>\<open>Math.max\<close> and \<^verbatim>\<open>Math.min\<close> of two arguments: NaN when an argument is NaN.\<close>

fun max_n :: "number \<Rightarrow> number \<Rightarrow> number" where
  "max_n NaN b = NaN"
| "max_n a NaN = NaN"
| "max_n a b = (if lt_n a b then b else a)"

fun min_n :: "number \<Rightarrow> number \<Rightarrow> number" where
  "min_n NaN b = NaN"
| "min_n a NaN = NaN"
| "min_n a b = (if lt_n b a then b else a)"

text \<open>\<^verbatim>\<open>Math.sqrt\<close>, \<^verbatim>\<open>Math.hypot\<close> of two arguments (an infinite argument wins over a
  NaN), and \<^verbatim>\<open>v ** 2\<close>.\<close>

fun sqrt_n :: "number \<Rightarrow> number" where
  "sqrt_n (Fin a) = (if a < 0 then NaN else Fin (sqrt a))"
| "sqrt_n PInf = PInf"
| "sqrt_n a = NaN"

fun hypot_n :: "number \<Rightarrow> number \<Rightarrow> number" where
  "hypot_n (Fin a) (Fin b) = Fin (sqrt (a * a + b * b))"
| "hypot_n PInf b = PInf"
| "hypot_n NInf b = PInf"
| "hypot_n a PInf = PInf"
| "hypot_n a NInf = PInf"
| "hypot_n a b = NaN"

definition sq_n :: "number \<Rightarrow> number" where
  "sq_n a = mul_n a a"

text \<open>
  The trigonometric functions. \<^verbatim>\<open>Math.tan\<close> is the quotient of sine and cosine taken
  with the division above, so that a pole is an infinity and not an arbitrary real.
  \<^verbatim>\<open>Math.atan2(y, x)\<close> on reals is the angle of the point \<open>(x, y)\<close> in \<open>(-\<pi>, \<pi>]\<close>,
  zero at the origin.
\<close>

fun cos_n :: "number \<Rightarrow> number" where
  "cos_n (Fin a) = Fin (cos a)"
| "cos_n a = NaN"

fun sin_n :: "number \<Rightarrow> number" where
  "sin_n (Fin a) = Fin (sin a)"
| "sin_n a = NaN"

fun tan_n :: "number \<Rightarrow> number" where
  "tan_n (Fin a) = div_n (Fin (sin a)) (Fin (cos a))"
| "tan_n a = NaN"

fun atan_n :: "number \<Rightarrow> number" where
  "atan_n (Fin a) = Fin (arctan a)"
| "atan_n PInf = Fin (pi / 2)"
| "atan_n NInf = Fin (- pi / 2)"
| "atan_n NaN = NaN"

definition atan2 :: "real \<Rightarrow> real \<Rightarrow> real" where
  "atan2 b a =
     (if 0 < a then arctan (b / a)
      else if a < 0 then (if 0 \<le> b then arctan (b / a) + pi else arctan (b / a) - pi)
      else if 0 < b then pi / 2
      else if b < 0 then - pi / 2
      else 0)"

fun atan2_n :: "number \<Rightarrow> number \<Rightarrow> number" where
  "atan2_n NaN a = NaN"
| "atan2_n b NaN = NaN"
| "atan2_n (Fin b) (Fin a) = Fin (atan2 b a)"
| "atan2_n (Fin b) PInf = Fin 0"
| "atan2_n (Fin b) NInf = (if 0 \<le> b then Fin pi else Fin (- pi))"
| "atan2_n PInf (Fin a) = Fin (pi / 2)"
| "atan2_n NInf (Fin a) = Fin (- pi / 2)"
| "atan2_n PInf PInf = Fin (pi / 4)"
| "atan2_n PInf NInf = Fin (3 * pi / 4)"
| "atan2_n NInf PInf = Fin (- pi / 4)"
| "atan2_n NInf NInf = Fin (- 3 * pi / 4)"

text \<open>
  Storing a number in a \<^verbatim>\<open>Float32Array\<close>. A magnitude from \<open>2\<^sup>1\<^sup>2\<^sup>8 - 2\<^sup>1\<^sup>0\<^sup>3\<close> on (halfway
  between the largest 32-bit float and \<open>2\<^sup>1\<^sup>2\<^sup>8\<close>) becomes an infinity, a magnitude up to
  \<open>2\<^sup>-\<^sup>1\<^sup>5\<^sup>0\<close> (half the smallest 32-bit float) becomes zero; between the two the number is
  kept as it is: the rounding to 24 bits is not modelled.
\<close>

fun narrow32 :: "number \<Rightarrow> number" where
  "narrow32 (Fin a) =
     (if 2 ^ 128 - 2 ^ 103 \<le> \<bar>a\<bar> then (if 0 < a then PInf else NInf)
      else if \<bar>a\<bar> \<le> 1 / 2 ^ 150 then Fin 0
      else Fin a)"
| "narrow32 a = a"

section \<open>Vector2\<close>

text \<open>
  \<^verbatim>\<open>class Vector2 { x; y }\<close> of \<^verbatim>\<open>src/math.ts\<close>. Vectors are values here: every
  method of the source that returns a vector returns a fresh object, and \<^verbatim>\<open>add\<close>, the
  one method that mutates its receiver, returns the new value of the receiver.
\<close>

datatype Vector2 = Vector2 (vx: number) (vy: number)

text \<open>\<^verbatim>\<open>vec2 = (x, y) => new Vector2(x, y ?? x)\<close>; \<open>vec2_1\<close> is the call with one
  argument.\<close>

definition vec2 :: "number \<Rightarrow> number \<Rightarrow> Vector2" where
  "vec2 a b = Vector2 a b"

definition vec2_1 :: "number \<Rightarrow> Vector2" where
  "vec2_1 a = Vector2 a a"

text \<open>\<^verbatim>\<open>add(...v)\<close> and \<^verbatim>\<open>sum(...v)\<close> fold the arguments from left to right.\<close>

definition V_add :: "Vector2 \<Rightarrow> Vector2 list \<Rightarrow> Vector2" where
  "V_add this vs = foldl (\<lambda>r v. Vector2 (add_n (vx r) (vx v)) (add_n (vy r) (vy v))) this vs"

definition V_sum :: "Vector2 \<Rightarrow> Vector2 list \<Rightarrow> Vector2" where
  "V_sum this vs =
     foldl (\<lambda>r v. Vector2 (add_n (vx r) (vx v)) (add_n (vy r) (vy v))) (vec2 (vx this) (vy this)) vs"

definition V_dif :: "Vector2 \<Rightarrow> Vector2 \<Rightarrow> Vector2" where
  "V_dif this v = vec2 (sub_n (vx this) (vx v)) (sub_n (vy this) (vy v))"

definition V_scale :: "Vector2 \<Rightarrow> number \<Rightarrow> Vector2" where
  "V_scale this n = vec2 (mul_n (vx this) n) (mul_n (vy this) n)"

definition V_length :: "Vector2 \<Rightarrow> number" where
  "V_length this = hypot_n (vx this) (vy this)"

definition V_neg :: "Vector2 \<Rightarrow> Vector2" where
  "V_neg this = vec2 (neg_n (vx this)) (neg_n (vy this))"

definition V_norm :: "Vector2 \<Rightarrow> Vector2" where
  "V_norm this = V_scale this (div_n (Fin 1) (V_length this))"

definition V_rotation :: "Vector2 \<Rightarrow> number" where
  "V_rotation this = atan2_n (vy this) (vx this)"

text \<open>
  \<^verbatim>\<open>static fromDegree(degree: number, length = 1)\<close> of \<^verbatim>\<open>src/math.ts\<close>: the second
  argument is optional.
\<close>

definition V_fromDegree :: "number \<Rightarrow> number option \<Rightarrow> Vector2" where
  "V_fromDegree degree len =
     (let l = (case len of None \<Rightarrow> Fin 1 | Some v \<Rightarrow> v)
      in vec2 (mul_n l (cos_n degree)) (mul_n l (sin_n degree)))"

text \<open>
  \<^verbatim>\<open>static fromDegree(length, degree)\<close> of the \<^verbatim>\<open>Vector2\<close> of \<^verbatim>\<open>js/math.js\<close>: no
  default value; an argument left out is \<^verbatim>\<open>undefined\<close>, whose cosine and sine are NaN.
\<close>

definition V_fromDegree_js :: "number \<Rightarrow> number option \<Rightarrow> Vector2" where
  "V_fromDegree_js len degree =
     vec2 (mul_n len (case degree of None \<Rightarrow> NaN | Some d \<Rightarrow> cos_n d))
          (mul_n len (case degree of None \<Rightarrow> NaN | Some d \<Rightarrow> sin_n d))"

text \<open>
  Modelled from the spec: the getter \<^verbatim>\<open>size\<close> of \<^verbatim>\<open>Vector2\<close>, which the constraints of
  \<^verbatim>\<open>js/math.js\<close> read and which neither \<^verbatim>\<open>Vector2\<close> under \<^verbatim>\<open>src/\<close> declares. The spec
  writes \<open>dl = |diff|\<close> and names the Euclidean norm, which \<^verbatim>\<open>src/math.ts\<close> computes as
  \<^verbatim>\<open>Math.hypot(this.x, this.y)\<close> under the name \<^verbatim>\<open>length\<close>.
\<close>

definition V_size :: "Vector2 \<Rightarrow> number" where
  "V_size this = hypot_n (vx this) (vy this)"

section \<open>WTransformMatrix3\<close>

text \<open>
  \<^verbatim>\<open>class WTransformMatrix3\<close> of \<^verbatim>\<open>src/math.ts\<close>: the private fields \<^verbatim>\<open>#translate\<close>,
  \<^verbatim>\<open>#direct\<close>, \<^verbatim>\<open>#skew\<close> (the tangent of the skew angle), \<^verbatim>\<open>#scale\<close> and the nine
  coefficients \<^verbatim>\<open>#data\<close>. A method that mutates the transform and returns \<^verbatim>\<open>this\<close>
  returns the new transform.
\<close>

record WTransformMatrix3 =
  p_translate :: Vector2
  p_direct :: Vector2
  p_skew :: number
  p_scale :: Vector2
  p_data :: "number list"

text \<open>Reading an array element; outside the array the read is \<^verbatim>\<open>undefined\<close>, a NaN
  in every arithmetic use the code makes of it.\<close>

definition arr_at :: "number list \<Rightarrow> nat \<Rightarrow> number" where
  "arr_at d i = (if i < length d then d ! i else NaN)"

text \<open>\<^verbatim>\<open>calcMatrix()\<close>: the array literal of nine numbers, \<open>coefficients\<close>, and
  \<^verbatim>\<open>this.#data.set(...)\<close>, which stores each of them in the \<^verbatim>\<open>Float32Array\<close>.\<close>

definition coefficients :: "WTransformMatrix3 \<Rightarrow> number list" where
  "coefficients this =
     (let tx = vx (p_translate this); ty = vy (p_translate this);
          rx = vx (p_direct this); ry = vy (p_direct this);
          sx = vx (p_scale this); sy = vy (p_scale this);
          k = p_skew this
      in [mul_n rx sx, mul_n ry sx, Fin 0,
          mul_n (sub_n (mul_n rx k) ry) sy, mul_n (add_n (mul_n ry k) rx) sy, Fin 0,
          tx, ty, Fin 1])"

definition T_calcMatrix :: "WTransformMatrix3 \<Rightarrow> WTransformMatrix3" where
  "T_calcMatrix this = this\<lparr>p_data := map narrow32 (coefficients this)\<rparr>"

definition T_calcFields :: "WTransformMatrix3 \<Rightarrow> WTransformMatrix3" where
  "T_calcFields this =
     (let m11 = arr_at (p_data this) 0; m12 = arr_at (p_data this) 1;
          m21 = arr_at (p_data this) 3; m22 = arr_at (p_data this) 4;
          m31 = arr_at (p_data this) 6; m32 = arr_at (p_data this) 7;
          direct = V_norm (vec2 m11 m12);
          sk = sub_n (sub_n (atan2_n m22 m21) (div_n (Fin pi) (Fin 2))) (V_rotation direct);
          skew = neg_n (tan_n sk);
          scale_x = sqrt_n (add_n (sq_n m11) (sq_n m12));
          scale_y = mul_n (sqrt_n (add_n (sq_n m21) (sq_n m22))) (cos_n sk)
      in this\<lparr>p_direct := direct, p_skew := skew,
              p_scale := Vector2 scale_x scale_y,
              p_translate := vec2 m31 m32\<rparr>)"

text \<open>The constructor, with the defaults \<^verbatim>\<open>translate = vec2(0)\<close>, \<^verbatim>\<open>rotate = 0\<close>,
  \<^verbatim>\<open>skew = 0\<close>, \<^verbatim>\<open>scale = vec2(1)\<close> supplied by the caller; \<^verbatim>\<open>#data\<close> starts as nine
  zeros.\<close>

definition T_new :: "Vector2 \<Rightarrow> number \<Rightarrow> number \<Rightarrow> Vector2 \<Rightarrow> WTransformMatrix3" where
  "T_new translate0 rotate0 skew0 scale0 =
     T_calcMatrix \<lparr>p_translate = translate0, p_direct = V_fromDegree rotate0 None,
                   p_skew = tan_n skew0, p_scale = scale0, p_data = replicate 9 (Fin 0)\<rparr>"

definition T_translateX :: "number \<Rightarrow> WTransformMatrix3 \<Rightarrow> WTransformMatrix3" where
  "T_translateX a this = T_calcMatrix (this\<lparr>p_translate := Vector2 a (vy (p_translate this))\<rparr>)"

definition T_translateY :: "number \<Rightarrow> WTransformMatrix3 \<Rightarrow> WTransformMatrix3" where
  "T_translateY b this = T_calcMatrix (this\<lparr>p_translate := Vector2 (vx (p_translate this)) b\<rparr>)"

definition T_translate :: "number \<Rightarrow> number \<Rightarrow> WTransformMatrix3 \<Rightarrow> WTransformMatrix3" where
  "T_translate a b this = T_calcMatrix (this\<lparr>p_translate := vec2 a b\<rparr>)"

text \<open>\<^verbatim>\<open>rotate(v0, v1?)\<close>: with a second argument the direction is the normalised vector,
  otherwise the first argument is an angle.\<close>

definition T_rotate :: "number \<Rightarrow> number option \<Rightarrow> WTransformMatrix3 \<Rightarrow> WTransformMatrix3" where
  "T_rotate v0 v1 this =
     T_calcMatrix (this\<lparr>p_direct :=
       (case v1 of Some w \<Rightarrow> V_norm (vec2 v0 w) | None \<Rightarrow> V_fromDegree v0 None)\<rparr>)"

definition T_scaleX :: "number \<Rightarrow> WTransformMatrix3 \<Rightarrow> WTransformMatrix3" where
  "T_scaleX a this = T_calcMatrix (this\<lparr>p_scale := Vector2 a (vy (p_scale this))\<rparr>)"

definition T_scaleY :: "number \<Rightarrow> WTransformMatrix3 \<Rightarrow> WTransformMatrix3" where
  "T_scaleY b this = T_calcMatrix (this\<lparr>p_scale := Vector2 (vx (p_scale this)) b\<rparr>)"

definition T_scale :: "number \<Rightarrow> number \<Rightarrow> WTransformMatrix3 \<Rightarrow> WTransformMatrix3" where
  "T_scale a b this = T_calcMatrix (this\<lparr>p_scale := vec2 a b\<rparr>)"

definition T_skew :: "number \<Rightarrow> WTransformMatrix3 \<Rightarrow> WTransformMatrix3" where
  "T_skew k this = T_calcMatrix (this\<lparr>p_skew := tan_n k\<rparr>)"

text \<open>The getters \<^verbatim>\<open>tx\<close>, \<^verbatim>\<open>ty\<close>, \<^verbatim>\<open>t\<close>, \<^verbatim>\<open>r\<close>, \<^verbatim>\<open>sx\<close>, \<^verbatim>\<open>sy\<close>, \<^verbatim>\<open>s\<close>, \<^verbatim>\<open>k\<close> and
  \<^verbatim>\<open>buffer\<close>.\<close>

definition T_tx :: "WTransformMatrix3 \<Rightarrow> number" where
  "T_tx this = vx (p_translate this)"

definition T_ty :: "WTransformMatrix3 \<Rightarrow> number" where
  "T_ty this = vy (p_translate this)"

definition T_t :: "WTransformMatrix3 \<Rightarrow> Vector2" where
  "T_t this = V_sum (p_translate this) []"

definition T_r :: "WTransformMatrix3 \<Rightarrow> number" where
  "T_r this = V_rotation (p_direct this)"

definition T_sx :: "WTransformMatrix3 \<Rightarrow> number" where
  "T_sx this = vx (p_scale this)"

definition T_sy :: "WTransformMatrix3 \<Rightarrow> number" where
  "T_sy this = vy (p_scale this)"

definition T_s :: "WTransformMatrix3 \<Rightarrow> Vector2" where
  "T_s this = V_sum (p_scale this) []"

definition T_k :: "WTransformMatrix3 \<Rightarrow> number" where
  "T_k this = atan_n (p_skew this)"

definition T_buffer :: "WTransformMatrix3 \<Rightarrow> number list" where
  "T_buffer this = p_data this"

text \<open>
  Modelled from the spec: \<^verbatim>\<open>setArray\<close>, \<^verbatim>\<open>copy\<close> and \<^verbatim>\<open>mult\<close> of \<^verbatim>\<open>WTransformMatrix3\<close>,
  which \<^verbatim>\<open>js/math.js\<close> calls and \<^verbatim>\<open>src/math.ts\<close> does not declare. The spec:
  \<^verbatim>\<open>setArray(nine_floats)\<close> replaces the raw coefficients wholesale, then \<^verbatim>\<open>calcFields\<close>;
  \<^verbatim>\<open>copy()\<close> is an independent deep clone; \<^verbatim>\<open>mult(other)\<close> is the full matrix
  multiplication in homogeneous space, \<open>this \<circ> other\<close>, on the column-major coefficients
  (the formula of \<^verbatim>\<open>WMatrix3.mult\<close> of \<^verbatim>\<open>src/math.ts\<close>), returned as a transform with
  these coefficients in its \<^verbatim>\<open>Float32Array\<close>. The arrays \<^verbatim>\<open>setArray\<close> receives in
  \<^verbatim>\<open>js/math.js\<close> are \<^verbatim>\<open>Float32Array\<close>s already.
\<close>

definition T_setArray :: "number list \<Rightarrow> WTransformMatrix3 \<Rightarrow> WTransformMatrix3" where
  "T_setArray arr this = T_calcFields (this\<lparr>p_data := arr\<rparr>)"

definition T_copy :: "WTransformMatrix3 \<Rightarrow> WTransformMatrix3" where
  "T_copy this = this"

definition mult_entry :: "number list \<Rightarrow> number list \<Rightarrow> nat \<Rightarrow> nat \<Rightarrow> number" where
  "mult_entry a b col row =
     add_n (add_n (mul_n (arr_at a (0 + row)) (arr_at b (3 * col + 0)))
                  (mul_n (arr_at a (3 + row)) (arr_at b (3 * col + 1))))
           (mul_n (arr_at a (6 + row)) (arr_at b (3 * col + 2)))"

definition T_mult :: "WTransformMatrix3 \<Rightarrow> WTransformMatrix3 \<Rightarrow> WTransformMatrix3" where
  "T_mult this other =
     T_setArray
      (map narrow32
       [mult_entry (p_data this) (p_data other) 0 0, mult_entry (p_data this) (p_data other) 0 1,
        mult_entry (p_data this) (p_data other) 0 2,
        mult_entry (p_data this) (p_data other) 1 0, mult_entry (p_data this) (p_data other) 1 1,
        mult_entry (p_data this) (p_data other) 1 2,
        mult_entry (p_data this) (p_data other) 2 0, mult_entry (p_data this) (p_data other) 2 1,
        mult_entry (p_data this) (p_data other) 2 2])
       (T_copy this)"

section \<open>WPhysicsModel\<close>

text \<open>
  \<^verbatim>\<open>class WPhysicsModel\<close> of \<^verbatim>\<open>js/math.js\<close>. A method takes the body and returns the body
  after the call.
\<close>

record WPhysicsModel =
  origin :: "number list"
  local :: WTransformMatrix3
  global :: WTransformMatrix3
  velocity :: Vector2
  acceleration :: Vector2
  force :: Vector2
  mass :: number

definition P_applyForce :: "Vector2 \<Rightarrow> WPhysicsModel \<Rightarrow> WPhysicsModel" where
  "P_applyForce f this = this\<lparr>force := V_add (force this) [f]\<rparr>"

definition P_applyAcceleration :: "Vector2 \<Rightarrow> WPhysicsModel \<Rightarrow> WPhysicsModel" where
  "P_applyAcceleration a this = this\<lparr>acceleration := V_add (acceleration this) [a]\<rparr>"

definition P_applyVelocity :: "Vector2 \<Rightarrow> WPhysicsModel \<Rightarrow> WPhysicsModel" where
  "P_applyVelocity v this = this\<lparr>velocity := V_add (velocity this) [v]\<rparr>"

definition P_move :: "Vector2 \<Rightarrow> WPhysicsModel \<Rightarrow> WPhysicsModel" where
  "P_move displacement this =
     (let s = V_sum (T_t (local this)) [displacement]
      in this\<lparr>local := T_translate (vx s) (vy s) (local this)\<rparr>)"

definition P_updateLocation :: "number \<Rightarrow> WPhysicsModel \<Rightarrow> WPhysicsModel" where
  "P_updateLocation dt this =
     (let b1 = P_applyAcceleration (V_scale (force this) (div_n (Fin 1) (mass this))) this;
          b2 = P_applyVelocity (V_scale (acceleration b1) dt) b1;
          b3 = P_move (V_scale (velocity b2) dt) b2;
          b4 = b3\<lparr>acceleration := vec2_1 (Fin 0)\<rparr>;
          b5 = b4\<lparr>force := vec2_1 (Fin 0)\<rparr>
      in b5\<lparr>global := T_setArray (T_buffer (local b5)) (global b5)\<rparr>)"

text \<open>The constructor; the caller supplies the defaults \<^verbatim>\<open>location = vec2(0)\<close>,
  \<^verbatim>\<open>rotation = 0\<close>, \<^verbatim>\<open>scale = vec2(1)\<close>, \<^verbatim>\<open>skew = 0\<close>, \<^verbatim>\<open>mass = 1\<close>,
  \<^verbatim>\<open>velocity = vec2(0)\<close>, \<^verbatim>\<open>acceleration = vec2(0)\<close>, \<^verbatim>\<open>origin = vec2(0)\<close>.\<close>

definition P_new ::
  "Vector2 \<Rightarrow> number \<Rightarrow> Vector2 \<Rightarrow> number \<Rightarrow> number \<Rightarrow> Vector2 \<Rightarrow> Vector2 \<Rightarrow> Vector2 \<Rightarrow> WPhysicsModel"
where
  "P_new location0 rotation0 scale0 skew0 mass0 velocity0 acceleration0 origin0 =
     (let l = T_new location0 rotation0 skew0 scale0
      in P_updateLocation (Fin 0)
           \<lparr>origin = [vx origin0, vy origin0], local = l, global = T_copy l,
            velocity = velocity0, acceleration = acceleration0,
            force = vec2_1 (Fin 0), mass = mass0\<rparr>)"

section \<open>Constraints\<close>

text \<open>
  A constraint holds references to its owner and its target, and \<^verbatim>\<open>solve()\<close> mutates the
  bodies it reaches through them. The bodies live in a store indexed by references, so
  that an owner and a target that are one object are one entry of the store.
\<close>

type_synonym ref = nat

type_synonym world = "ref \<Rightarrow> WPhysicsModel"

record ObjectConstraint =
  owner :: ref

record TargetConstraint = ObjectConstraint +
  target :: ref

subsection \<open>WSpring\<close>

record WSpring = TargetConstraint +
  L0 :: number
  ks :: number

definition WSpring_solve :: "WSpring \<Rightarrow> world \<Rightarrow> world" where
  "WSpring_solve this w =
     (let diff = V_dif (T_t (global (w (owner this)))) (T_t (global (w (target this))));
          dl = V_size diff;
          x = sub_n dl (L0 this);
          f = mul_n (ks this) x;
          F_ba = V_scale diff (div_n f (or_n dl PInf));
          F_ab = V_neg F_ba;
          w1 = w(owner this := P_applyForce F_ab (w (owner this)));
          w2 = w1(target this := P_applyForce F_ba (w1 (target this)))
      in w2)"

subsection \<open>WRope\<close>

record WRope = TargetConstraint +
  length_r :: number
  bounce :: number

definition WRope_solve :: "WRope \<Rightarrow> world \<Rightarrow> world" where
  "WRope_solve this w =
     (let dir = V_dif (T_t (global (w (target this)))) (T_t (global (w (owner this))));
          diff = V_size dir
      in if gt_n diff (length_r this) then
           (let sum = add_n (mass (w (owner this))) (mass (w (target this)));
                r1 = (if isFinite (mass (w (owner this)))
                      then (if isFinite (mass (w (target this)))
                            then div_n (mass (w (target this))) sum else Fin 1)
                      else (if isFinite (mass (w (target this))) then Fin 0 else Fin 0));
                r2 = (if isFinite (mass (w (owner this)))
                      then (if isFinite (mass (w (target this)))
                            then div_n (mass (w (owner this))) sum else Fin 0)
                      else (if isFinite (mass (w (target this))) then Fin 1 else Fin 0));
                mv = V_scale dir (div_n (sub_n diff (length_r this)) diff);
                m1 = V_scale mv r1;
                m2 = V_scale mv (neg_n r2);
                w1 = w(owner this := P_move m1 (w (owner this)));
                w2 = w1(target this := P_move m2 (w1 (target this)));
                w3 = w2(owner this := P_applyAcceleration (V_scale m1 (bounce this)) (w2 (owner this)));
                w4 = w3(target this := P_applyAcceleration (V_scale m2 (bounce this)) (w3 (target this)))
            in w4)
         else w)"

subsection \<open>The transforms a constraint resolves\<close>

text \<open>
  Every constraint below starts with \<^verbatim>\<open>og = this.owner.global\<close>,
  \<^verbatim>\<open>o = this.ownerRelativity == 'local' ? this.owner.local : og\<close> and, with a target,
  \<^verbatim>\<open>t = this.targetRelativity == 'local' ? this.target.local : this.target.global\<close>.
  These are references into the store: \<open>resolve\<close> reads the transform a reference
  denotes in the current store, and \<open>mutate_global\<close> applies a mutating method to the
  \<^verbatim>\<open>global\<close> transform of a body.
\<close>

definition resolve :: "string \<Rightarrow> ref \<Rightarrow> world \<Rightarrow> WTransformMatrix3" where
  "resolve relativity b w = (if relativity = ''local'' then local (w b) else global (w b))"

definition mutate_global :: "ref \<Rightarrow> (WTransformMatrix3 \<Rightarrow> WTransformMatrix3) \<Rightarrow> world \<Rightarrow> world" where
  "mutate_global b m w = w(b := (w b)\<lparr>global := m (global (w b))\<rparr>)"

subsection \<open>CopyTransformsConstraint\<close>

datatype error = Error string string

record CopyTransformsConstraint = TargetConstraint +
  mixMode :: string
  ct_ownerRelativity :: string
  ct_targetRelativity :: string

text \<open>
  \<^verbatim>\<open>solve()\<close> returns the error it throws, if any, together with the store at the moment
  it returns or throws. In the branch \<^verbatim>\<open>'split'\<close> each call reads \<^verbatim>\<open>t\<close> and \<^verbatim>\<open>o\<close> in the
  store the calls before it have left.
\<close>

text \<open>
  Modelled from the spec: the overloads \<^verbatim>\<open>og.scale(sx, sy, false)\<close>, \<^verbatim>\<open>og.skew(k, false)\<close>
  and \<^verbatim>\<open>og.rotate(r, false)\<close> of the branch \<^verbatim>\<open>'split'\<close>, whose trailing flag the methods of
  \<^verbatim>\<open>src/math.ts\<close> do not declare. The spec: on \<^verbatim>\<open>'split'\<close> the scale is the elementwise
  product, the skew angle and the rotation angle are the sums; these are \<open>T_scale\<close>,
  \<open>T_skew\<close> and \<open>T_rotate\<close> with an angle. The last call, \<^verbatim>\<open>og.translate\<close>, recomputes the
  coefficients in any case.
\<close>

definition CopyTransformsConstraint_solve ::
  "CopyTransformsConstraint \<Rightarrow> world \<Rightarrow> error option \<times> world" where
  "CopyTransformsConstraint_solve this w =
     (let o1 = resolve (ct_ownerRelativity this) (owner this);
          t = resolve (ct_targetRelativity this) (target this)
      in if mixMode this = ''replace'' then
           (None, mutate_global (owner this) (T_setArray (T_buffer (t w))) w)
         else if mixMode this = ''split'' then
           (let w1 = mutate_global (owner this)
                       (T_scale (mul_n (T_sx (t w)) (T_sx (o1 w))) (mul_n (T_sy (t w)) (T_sy (o1 w)))) w;
                w2 = mutate_global (owner this) (T_skew (add_n (T_k (t w1)) (T_k (o1 w1)))) w1;
                w3 = mutate_global (owner this) (T_rotate (add_n (T_r (t w2)) (T_r (o1 w2))) None) w2;
                w4 = mutate_global (owner this)
                       (T_translate (add_n (T_tx (t w3)) (T_tx (o1 w3)))
                                    (add_n (T_ty (t w3)) (T_ty (o1 w3)))) w3
            in (None, w4))
         else if mixMode this = ''beforeFull'' then
           (None, mutate_global (owner this) (T_setArray (T_buffer (T_mult (t w) (o1 w)))) w)
         else if mixMode this = ''afterFull'' then
           (None, mutate_global (owner this) (T_setArray (T_buffer (T_mult (o1 w) (t w)))) w)
         else (Some (Error ''Invalid mix mode'' (mixMode this)), w))"

subsection \<open>LimitDistanceConstraint\<close>

record LimitDistanceConstraint = TargetConstraint +
  distance :: number
  clampRegion :: string
  ld_ownerRelativity :: string
  ld_targetRelativity :: string

text \<open>\<^verbatim>\<open>v ?? 0\<close> on a number: a number is neither \<^verbatim>\<open>null\<close> nor \<^verbatim>\<open>undefined\<close>, a NaN
  included, so the left operand is the value.\<close>

definition nullish_n :: "number \<Rightarrow> number \<Rightarrow> number" where
  "nullish_n a b = a"

definition LimitDistanceConstraint_solve :: "LimitDistanceConstraint \<Rightarrow> world \<Rightarrow> world" where
  "LimitDistanceConstraint_solve this w =
     (let og = global (w (owner this));
          o1 = resolve (ld_ownerRelativity this) (owner this) w;
          t = resolve (ld_targetRelativity this) (target this) w;
          dir = V_dif (T_t t) (T_t o1);
          dist = V_size dir;
          diff = sub_n dist (distance this)
      in if (clampRegion this = ''inside'' \<and> gt_n diff (Fin 0)) \<or>
            (clampRegion this = ''outside'' \<and> lt_n diff (Fin 0)) \<or>
            (clampRegion this = ''surface'' \<and> sne_n diff (Fin 0))
         then (let t' = V_sum (V_scale dir (div_n diff dist)) [T_t og]
               in mutate_global (owner this)
                    (T_translate (nullish_n (vx t') (Fin 0)) (nullish_n (vy t') (Fin 0))) w)
         else w)"

subsection \<open>LimitLocationConstraint\<close>

text \<open>\<^verbatim>\<open>clamp = (value, min, max) => Math.min(Math.max(min, value), max)\<close> of
  \<^verbatim>\<open>src/math.ts\<close>.\<close>

definition clamp :: "number \<Rightarrow> number \<Rightarrow> number \<Rightarrow> number" where
  "clamp v lo hi = min_n (max_n lo v) hi"

record LimitLocationConstraint = ObjectConstraint +
  p_influence :: number
  ll_ownerRelativity :: string
  ll_min :: Vector2
  ll_max :: Vector2

text \<open>The constructor, with the defaults \<^verbatim>\<open>ownerRelativity = 'global'\<close>,
  \<^verbatim>\<open>influence = 1\<close>, \<^verbatim>\<open>minX = minY = -Infinity\<close>, \<^verbatim>\<open>maxX = maxY = Infinity\<close> supplied
  by the caller; the getter and the setter of \<^verbatim>\<open>influence\<close>.\<close>

definition LimitLocationConstraint_new ::
  "ref \<Rightarrow> string \<Rightarrow> number \<Rightarrow> number \<Rightarrow> number \<Rightarrow> number \<Rightarrow> number \<Rightarrow> LimitLocationConstraint" where
  "LimitLocationConstraint_new owner0 ownerRelativity0 influence0 minX minY maxX maxY =
     \<lparr>owner = owner0, p_influence = influence0, ll_ownerRelativity = ownerRelativity0,
      ll_min = vec2 minX minY, ll_max = vec2 maxX maxY\<rparr>"

definition influence :: "LimitLocationConstraint \<Rightarrow> number" where
  "influence this = p_influence this"

definition set_influence :: "number \<Rightarrow> LimitLocationConstraint \<Rightarrow> LimitLocationConstraint" where
  "set_influence v this = this\<lparr>p_influence := clamp v (Fin 0) (Fin 1)\<rparr>"

text \<open>The correction of one axis, the same chain of tests for \<^verbatim>\<open>x\<close> and for \<^verbatim>\<open>y\<close>;
  \<^verbatim>\<open>t\<close> starts as \<^verbatim>\<open>vec2(0)\<close>.\<close>

definition axis_correction :: "number \<Rightarrow> number \<Rightarrow> number" where
  "axis_correction minT maxT =
     (if gt_n minT (Fin 0) then (if lt_n maxT (Fin 0) then Fin 0 else minT)
      else if lt_n maxT (Fin 0) then maxT
      else Fin 0)"

definition LimitLocationConstraint_solve :: "LimitLocationConstraint \<Rightarrow> world \<Rightarrow> world" where
  "LimitLocationConstraint_solve this w =
     (let og = global (w (owner this));
          o1 = resolve (ll_ownerRelativity this) (owner this) w;
          minT = V_dif (ll_min this) (T_t o1);
          maxT = V_dif (ll_max this) (T_t o1);
          t = Vector2 (axis_correction (vx minT) (vx maxT)) (axis_correction (vy minT) (vy maxT))
      in mutate_global (owner this)
           (T_translate (add_n (T_tx og) (mul_n (vx t) (influence this)))
                        (add_n (T_ty og) (mul_n (vy t) (influence this)))) w)"

section \<open>Predicates and scenes of the statements\<close>

text \<open>A number within a closed interval of reals, and a vector with two finite
  components.\<close>

fun in_range :: "real \<Rightarrow> real \<Rightarrow> number \<Rightarrow> bool" where
  "in_range lo hi (Fin a) = (lo \<le> a \<and> a \<le> hi)"
| "in_range lo hi a = False"

definition finite_v :: "Vector2 \<Rightarrow> bool" where
  "finite_v v = (isFinite (vx v) \<and> isFinite (vy v))"

text \<open>
  \<open>body_at a m\<close> is \<^verbatim>\<open>new WPhysicsModel({ location: vec2(a, 0), mass: m })\<close>, every other
  argument at its default, and \<open>two_bodies a m1 b m2\<close> is a store with such a body at
  \<open>(a, 0)\<close> under the reference \<open>0\<close> and one at \<open>(b, 0)\<close> under every other reference.
\<close>

definition body_at :: "real \<Rightarrow> number \<Rightarrow> WPhysicsModel" where
  "body_at a m =
     P_new (vec2 (Fin a) (Fin 0)) (Fin 0) (vec2_1 (Fin 1)) (Fin 0) m
       (vec2_1 (Fin 0)) (vec2_1 (Fin 0)) (vec2_1 (Fin 0))"

definition two_bodies :: "real \<Rightarrow> number \<Rightarrow> real \<Rightarrow> number \<Rightarrow> world" where
  "two_bodies a m1 b m2 = (\<lambda>r. if r = 0 then body_at a m1 else body_at b m2)"

definition copy_with_mode :: "string \<Rightarrow> CopyTransformsConstraint" where
  "copy_with_mode m =
     \<lparr>owner = 0, target = 1, mixMode = m,
      ct_ownerRelativity = ''global'', ct_targetRelativity = ''global''\<rparr>"

text \<open>A body at \<open>(3, 0)\<close> of mass 2 with the force \<open>(4, 0)\<close> and the velocity \<open>(1, 0)\<close>
  applied, and a body at the origin with the acceleration \<open>(Infinity, 0)\<close> applied.\<close>

definition pushed_body :: WPhysicsModel where
  "pushed_body =
     P_applyVelocity (Vector2 (Fin 1) (Fin 0))
       (P_applyForce (Vector2 (Fin 4) (Fin 0)) (body_at 3 (Fin 2)))"

definition accelerated_body :: WPhysicsModel where
  "accelerated_body = P_applyAcceleration (Vector2 PInf (Fin 0)) (body_at 0 (Fin 1))"

text \<open>A spring and a rope from the body under the reference \<open>0\<close> to the body under the
  reference \<open>1\<close>.\<close>

definition spring_of :: "number \<Rightarrow> number \<Rightarrow> WSpring" where
  "spring_of l k = \<lparr>owner = 0, target = 1, L0 = l, ks = k\<rparr>"

definition rope_of :: "number \<Rightarrow> number \<Rightarrow> WRope" where
  "rope_of l b = \<lparr>owner = 0, target = 1, length_r = l, bounce = b\<rparr>"

text \<open>The vector \<^verbatim>\<open>F_ba\<close> that \<^verbatim>\<open>WSpring.solve\<close> computes: the first five bindings of
  \<open>WSpring_solve\<close>.\<close>

definition spring_force :: "WSpring \<Rightarrow> world \<Rightarrow> Vector2" where
  "spring_force this w =
     (let diff = V_dif (T_t (global (w (owner this)))) (T_t (global (w (target this))));
          dl = V_size diff;
          x = sub_n dl (L0 this);
          f = mul_n (ks this) x
      in V_scale diff (div_n f (or_n dl PInf)))"


text \<open>A distance limit from the body under the reference \<open>0\<close> to the body under the
  reference \<open>1\<close>, both resolved as \<^verbatim>\<open>'global'\<close>; and the store \<open>two_bodies 0 1 9 1\<close> after
  \<^verbatim>\<open>global.translate(3, 0)\<close> on the body under the reference \<open>0\<close>, as a constraint solved
  before leaves it: the global translation is \<open>(3, 0)\<close>, the local one still \<open>(0, 0)\<close>.\<close>

definition limit_distance_of :: "number \<Rightarrow> string \<Rightarrow> LimitDistanceConstraint" where
  "limit_distance_of d region =
     \<lparr>owner = 0, target = 1, distance = d, clampRegion = region,
      ld_ownerRelativity = ''global'', ld_targetRelativity = ''global''\<rparr>"

definition displaced_owner :: world where
  "displaced_owner =
     mutate_global 0 (T_translate (Fin 3) (Fin 0)) (two_bodies 0 (Fin 1) 9 (Fin 1))"



section \<open>Arithmetic of the number model\<close>

lemma add_n_zero_right [simp]: "add_n a (Fin 0) = a"
  by (cases a) simp_all

lemma add_n_zero_left [simp]: "add_n (Fin 0) a = a"
  by (cases a) simp_all

lemma mul_n_one_left [simp]: "mul_n (Fin 1) a = a"
  by (cases a) simp_all

lemma mul_n_one_right [simp]: "mul_n a (Fin 1) = a"
  by (cases a) simp_all

lemma nan_absorbs [simp]: "mul_n a NaN = NaN" "add_n a NaN = NaN" "div_n a NaN = NaN"
  by (cases a; simp)+

lemma mul_n_neg_right: "mul_n a (neg_n b) = neg_n (mul_n a b)"
  by (cases a; cases b) auto

lemma sub_n_self: "sub_n a a = Fin 0 \<or> sub_n a a = NaN"
  by (cases a) (simp_all add: sub_n_def)

lemma mul_n_zero_or_nan: "a = Fin 0 \<or> a = NaN \<Longrightarrow> mul_n a c = Fin 0 \<or> mul_n a c = NaN"
  by (cases c) auto

lemma add_neg_cancel:
  "g = Fin 0 \<or> g = NaN \<Longrightarrow> add_n (add_n f (neg_n g)) g = add_n f g"
  by (cases f; auto)

lemma add_neg_cancel':
  "g = Fin 0 \<or> g = NaN \<Longrightarrow> add_n (add_n f (neg_n g)) g = add_n f (neg_n g)"
  by (cases f; auto)

lemma or_n_nonzero: "d \<noteq> Fin 0 \<Longrightarrow> div_n f (or_n d PInf) = div_n f d \<or> d = NaN"
  by (cases d) (simp_all add: or_n_def)

lemma hypot_zero: "hypot_n a b = Fin 0 \<Longrightarrow> a = Fin 0 \<and> b = Fin 0"
proof (cases a; cases b)
  fix r q assume "hypot_n a b = Fin 0" "a = Fin r" "b = Fin q"
  then have "r * r + q * q = 0" by simp
  then have "r = 0 \<and> q = 0" by (simp add: sum_squares_eq_zero_iff flip: power2_eq_square)
  with \<open>a = Fin r\<close> \<open>b = Fin q\<close> show ?thesis by simp
qed simp_all

lemma hypot_finite: "isFinite (hypot_n a b) \<Longrightarrow> isFinite a \<and> isFinite b"
  by (cases a; cases b) simp_all

lemma hypot_axis: "hypot_n (Fin a) (Fin 0) = Fin \<bar>a\<bar>"
  by (simp flip: power2_eq_square)

lemma narrow32_zero [simp]: "narrow32 (Fin 0) = Fin 0"
  by simp


lemma mul_n_fin_zero: "isFinite a \<Longrightarrow> mul_n a (Fin 0) = Fin 0"
  by (cases a) simp_all

section \<open>Vectors, transforms and bodies: what the methods leave in the fields\<close>

lemma V_add_single: "V_add v [u] = Vector2 (add_n (vx v) (vx u)) (add_n (vy v) (vy u))"
  by (simp add: V_add_def)

lemma V_sum_nil: "V_sum v [] = v"
  by (simp add: V_sum_def vec2_def)

lemma V_sum_single: "V_sum v [u] = Vector2 (add_n (vx v) (vx u)) (add_n (vy v) (vy u))"
  by (simp add: V_sum_def vec2_def)

lemma T_t_eq [simp]: "T_t tm = p_translate tm"
  by (simp add: T_t_def V_sum_nil)

lemma V_scale_zero: "finite_v v \<Longrightarrow> V_scale v (Fin 0) = Vector2 (Fin 0) (Fin 0)"
  by (simp add: V_scale_def vec2_def finite_v_def mul_n_fin_zero)

lemma V_add_zero: "V_add v [Vector2 (Fin 0) (Fin 0)] = v"
  by (simp add: V_add_single)

lemma V_sum_zero: "V_sum v [Vector2 (Fin 0) (Fin 0)] = v"
  by (simp add: V_sum_single)

lemma p_translate_calcMatrix: "p_translate (T_calcMatrix t) = p_translate t"
  by (simp add: T_calcMatrix_def)

lemma p_translate_translate: "p_translate (T_translate a b t) = Vector2 a b"
  by (simp add: T_translate_def p_translate_calcMatrix vec2_def)

lemma p_translate_new: "p_translate (T_new l r k s) = l"
  by (simp add: T_new_def p_translate_calcMatrix)

lemma arr_at_calcMatrix:
  "arr_at (p_data (T_calcMatrix t)) 6 = narrow32 (vx (p_translate t))"
  "arr_at (p_data (T_calcMatrix t)) 7 = narrow32 (vy (p_translate t))"
  by (simp_all add: T_calcMatrix_def coefficients_def Let_def arr_at_def del: narrow32.simps)

lemma p_translate_setArray:
  "p_translate (T_setArray d t) = Vector2 (arr_at d 6) (arr_at d 7)"
  by (simp add: T_setArray_def T_calcFields_def Let_def vec2_def)

lemma updateLocation_force: "force (P_updateLocation dt b) = Vector2 (Fin 0) (Fin 0)"
  by (simp add: P_updateLocation_def Let_def vec2_1_def)

lemma updateLocation_acceleration: "acceleration (P_updateLocation dt b) = Vector2 (Fin 0) (Fin 0)"
  by (simp add: P_updateLocation_def Let_def vec2_1_def)

lemma updateLocation_velocity:
  "velocity (P_updateLocation dt b) =
     V_add (velocity b)
       [V_scale (V_add (acceleration b) [V_scale (force b) (div_n (Fin 1) (mass b))]) dt]"
  by (simp add: P_updateLocation_def Let_def P_applyVelocity_def P_applyAcceleration_def P_move_def)

lemma updateLocation_local_t:
  "p_translate (local (P_updateLocation dt b)) =
     V_sum (p_translate (local b)) [V_scale (velocity (P_updateLocation dt b)) dt]"
  by (simp add: P_updateLocation_def Let_def P_applyVelocity_def P_applyAcceleration_def P_move_def
      p_translate_translate V_sum_single)

lemma updateLocation_global_t:
  "p_translate (global (P_updateLocation dt b)) =
     Vector2 (narrow32 (vx (p_translate (local (P_updateLocation dt b)))))
             (narrow32 (vy (p_translate (local (P_updateLocation dt b)))))"
  by (simp add: P_updateLocation_def Let_def P_applyVelocity_def P_applyAcceleration_def P_move_def
      p_translate_setArray T_buffer_def T_translate_def arr_at_calcMatrix p_translate_calcMatrix
      vec2_def)

lemma zero_force_over_mass:
  "m \<noteq> Fin 0 \<Longrightarrow> m \<noteq> NaN \<Longrightarrow>
     V_scale (Vector2 (Fin 0) (Fin 0)) (div_n (Fin 1) m) = Vector2 (Fin 0) (Fin 0)"
  by (cases m) (simp_all add: V_scale_def vec2_def)

lemma new_force: "force (P_new l r s k m v a g) = Vector2 (Fin 0) (Fin 0)"
  by (simp add: P_new_def Let_def updateLocation_force)

lemma new_acceleration: "acceleration (P_new l r s k m v a g) = Vector2 (Fin 0) (Fin 0)"
  by (simp add: P_new_def Let_def updateLocation_acceleration)

lemma new_mass: "mass (P_new l r s k m v a g) = m"
  by (simp add: P_new_def Let_def P_updateLocation_def P_applyVelocity_def
      P_applyAcceleration_def P_move_def)

lemma new_velocity:
  "velocity (P_new l r s k m v a g) =
     V_add v [V_scale (V_add a [V_scale (Vector2 (Fin 0) (Fin 0)) (div_n (Fin 1) m)]) (Fin 0)]"
  by (simp add: P_new_def Let_def updateLocation_velocity vec2_1_def)

lemma new_local_t:
  "p_translate (local (P_new l r s k m v a g)) =
     V_sum l [V_scale (velocity (P_new l r s k m v a g)) (Fin 0)]"
  by (simp add: P_new_def Let_def updateLocation_local_t p_translate_new)

lemma new_global_t:
  "p_translate (global (P_new l r s k m v a g)) =
     Vector2 (narrow32 (vx (p_translate (local (P_new l r s k m v a g)))))
             (narrow32 (vy (p_translate (local (P_new l r s k m v a g)))))"
  by (simp add: P_new_def Let_def updateLocation_global_t)

lemma scaled_sum_independent:
  "finite_v a1 \<Longrightarrow> finite_v a2 \<Longrightarrow>
     V_scale (V_add a1 [f]) (Fin 0) = V_scale (V_add a2 [f]) (Fin 0)"
  by (cases a1; cases a2; cases f; cases "vx f"; cases "vy f")
     (auto simp: finite_v_def V_scale_def V_add_single vec2_def elim!: isFinite.elims)

lemma new_independent:
  assumes "finite_v a1" "finite_v a2"
  shows "P_new l r s k m v a1 g = P_new l r s k m v a2 g"
  using scaled_sum_independent[OF assms]
  by (simp add: P_new_def Let_def P_updateLocation_def P_applyVelocity_def
      P_applyAcceleration_def P_move_def)

lemma body_at_velocity:
  "m \<noteq> Fin 0 \<Longrightarrow> m \<noteq> NaN \<Longrightarrow> velocity (body_at a m) = Vector2 (Fin 0) (Fin 0)"
  by (simp add: body_at_def new_velocity zero_force_over_mass V_add_zero V_scale_zero
      finite_v_def vec2_1_def)

lemma body_at_local_t:
  "m \<noteq> Fin 0 \<Longrightarrow> m \<noteq> NaN \<Longrightarrow> p_translate (local (body_at a m)) = Vector2 (Fin a) (Fin 0)"
  using body_at_velocity[of m a]
  by (simp add: body_at_def new_local_t V_scale_zero V_sum_zero finite_v_def vec2_def)

lemma body_at_global_t:
  "m \<noteq> Fin 0 \<Longrightarrow> m \<noteq> NaN \<Longrightarrow> narrow32 (Fin a) = Fin a \<Longrightarrow>
     p_translate (global (body_at a m)) = Vector2 (Fin a) (Fin 0)"
  using body_at_local_t[of m a] by (simp add: body_at_def new_global_t del: narrow32.simps)

lemma body_at_fields:
  "force (body_at a m) = Vector2 (Fin 0) (Fin 0)"
  "acceleration (body_at a m) = Vector2 (Fin 0) (Fin 0)"
  "mass (body_at a m) = m"
  by (simp_all add: body_at_def new_force new_acceleration new_mass)

lemma two_bodies_at:
  "two_bodies a m1 b m2 0 = body_at a m1"
  "two_bodies a m1 b m2 (Suc n) = body_at b m2"
  by (simp_all add: two_bodies_def)

lemma V_scale_neg: "V_scale v (neg_n c) = V_neg (V_scale v c)"
  by (simp add: V_scale_def V_neg_def vec2_def mul_n_neg_right)

lemma V_scale_nan: "V_scale (Vector2 NaN NaN) c = Vector2 NaN NaN"
  by (simp add: V_scale_def vec2_def)

lemma V_sum_nan:
  "V_sum v [Vector2 NaN NaN] = Vector2 NaN NaN"
  "V_neg (Vector2 NaN NaN) = Vector2 NaN NaN"
  by (simp_all add: V_sum_single V_neg_def vec2_def)

lemma V_size_zero: "V_size v = Fin 0 \<Longrightarrow> v = Vector2 (Fin 0) (Fin 0)"
  using hypot_zero[of "vx v" "vy v"] by (cases v) (simp add: V_size_def)

lemma V_size_finite: "isFinite (V_size v) \<Longrightarrow> finite_v v"
  using hypot_finite[of "vx v" "vy v"] by (simp add: V_size_def finite_v_def)

lemma local_applyAcceleration: "local (P_applyAcceleration a b) = local b"
  by (simp add: P_applyAcceleration_def)

lemma local_t_move: "p_translate (local (P_move d b)) = V_sum (p_translate (local b)) [d]"
  by (simp add: P_move_def Let_def p_translate_translate V_sum_single)

section \<open>Vector2.fromDegree\<close>

text \<open>
  C8 (amended). \<^verbatim>\<open>Vector2.fromDegree\<close> of \<^verbatim>\<open>src/math.ts\<close>, called with the angle (in
  radians) first and the length second, returns
  \<open>(length \<cdot> cos angle, length \<cdot> sin angle)\<close>, the length being 1 when it is left out.
  \<^verbatim>\<open>Vector2.fromDegree\<close> of \<^verbatim>\<open>js/math.js\<close> returns this vector when it is called with
  the length first and the angle second; called with the angle first and the length
  second it returns \<open>(angle \<cdot> cos length, angle \<cdot> sin length)\<close>, and it has no default:
  with the second argument left out both components are NaN products.
\<close>

theorem fromDegree_contract:
  "V_fromDegree angle (Some len) = Vector2 (mul_n len (cos_n angle)) (mul_n len (sin_n angle))
   \<and> V_fromDegree angle None = Vector2 (mul_n (Fin 1) (cos_n angle)) (mul_n (Fin 1) (sin_n angle))
   \<and> V_fromDegree_js len (Some angle) = Vector2 (mul_n len (cos_n angle)) (mul_n len (sin_n angle))
   \<and> V_fromDegree_js angle (Some len) = Vector2 (mul_n angle (cos_n len)) (mul_n angle (sin_n len))
   \<and> V_fromDegree_js angle None = Vector2 (mul_n angle NaN) (mul_n angle NaN)"
  by (simp add: V_fromDegree_def V_fromDegree_js_def vec2_def)

text \<open>
  C8 as stated fails for the implementation of \<^verbatim>\<open>js/math.js\<close>: with the angle 0 first
  and the length 2 second it returns \<open>(0, 0)\<close>, where the claim has
  \<open>(2 \<cdot> cos 0, 2 \<cdot> sin 0) = (2, 0)\<close>; and with the angle alone it returns NaN components.
\<close>

theorem fromDegree_js_counterexample:
  "V_fromDegree_js (Fin 0) (Some (Fin 2)) = Vector2 (Fin 0) (Fin 0)
   \<and> Vector2 (mul_n (Fin 2) (cos_n (Fin 0))) (mul_n (Fin 2) (sin_n (Fin 0))) = Vector2 (Fin 2) (Fin 0)
   \<and> V_fromDegree_js (Fin 0) None = Vector2 NaN NaN"
  by (simp add: V_fromDegree_js_def vec2_def)

section \<open>CopyTransformsConstraint.solve with an unknown mix mode\<close>

text \<open>
  C5. For every \<^verbatim>\<open>CopyTransformsConstraint\<close> whose \<^verbatim>\<open>mixMode\<close> is none of \<^verbatim>\<open>'replace'\<close>,
  \<^verbatim>\<open>'split'\<close>, \<^verbatim>\<open>'beforeFull'\<close>, \<^verbatim>\<open>'afterFull'\<close>, \<^verbatim>\<open>solve()\<close> throws the error
  \<^verbatim>\<open>'Invalid mix mode'\<close>, and the store at the throw is the store before the call: in
  particular \<^verbatim>\<open>owner.global\<close> is not mutated.
\<close>

theorem copy_transforms_invalid_mode:
  assumes "mixMode c \<notin> {''replace'', ''split'', ''beforeFull'', ''afterFull''}"
  shows "fst (CopyTransformsConstraint_solve c w) = Some (Error ''Invalid mix mode'' (mixMode c))
         \<and> snd (CopyTransformsConstraint_solve c w) = w
         \<and> global (snd (CopyTransformsConstraint_solve c w) (owner c)) = global (w (owner c))"
  using assms by (simp add: CopyTransformsConstraint_solve_def)

theorem copy_transforms_invalid_mode_witness:
  "fst (CopyTransformsConstraint_solve (copy_with_mode ''add'') (two_bodies 0 (Fin 1) 9 (Fin 1)))
     = Some (Error ''Invalid mix mode'' ''add'')
   \<and> snd (CopyTransformsConstraint_solve (copy_with_mode ''add'') (two_bodies 0 (Fin 1) 9 (Fin 1)))
     = two_bodies 0 (Fin 1) 9 (Fin 1)"
  using copy_transforms_invalid_mode
          [of "copy_with_mode ''add''" "two_bodies 0 (Fin 1) 9 (Fin 1)"]
  by (simp add: copy_with_mode_def)

section \<open>The influence of a LimitLocationConstraint\<close>

lemma clamp_in_unit: "v \<noteq> NaN \<Longrightarrow> in_range 0 1 (clamp v (Fin 0) (Fin 1))"
  by (cases v) (auto simp: clamp_def)

text \<open>
  C9 (amended). For every value \<open>v\<close> other than NaN assigned through the setter of
  \<^verbatim>\<open>influence\<close>, the stored influence lies in \<open>[0, 1]\<close>; for every \<open>v\<close> it is
  \<^verbatim>\<open>clamp(v, 0, 1)\<close>. For every constructor argument \<open>u\<close>, a constraint constructed with
  the influence \<open>u\<close> reports exactly \<open>u\<close> through the getter, unclamped.
\<close>

theorem influence_setter_and_constructor:
  "(v \<noteq> NaN \<longrightarrow> in_range 0 1 (influence (set_influence v c)))
   \<and> influence (set_influence v c) = clamp v (Fin 0) (Fin 1)
   \<and> influence (LimitLocationConstraint_new ow rel u minX minY maxX maxY) = u"
  by (simp add: clamp_in_unit influence_def set_influence_def LimitLocationConstraint_new_def)

theorem influence_setter_and_constructor_witness:
  "in_range 0 1 (influence (set_influence (Fin 5)
       (LimitLocationConstraint_new 0 ''global'' (Fin 5) NInf NInf PInf PInf)))
   \<and> influence (set_influence (Fin 5)
       (LimitLocationConstraint_new 0 ''global'' (Fin 5) NInf NInf PInf PInf)) = Fin 1
   \<and> influence (LimitLocationConstraint_new 0 ''global'' (Fin 5) NInf NInf PInf PInf) = Fin 5
   \<and> \<not> in_range 0 1 (influence (LimitLocationConstraint_new 0 ''global'' (Fin 5) NInf NInf PInf PInf))"
  using influence_setter_and_constructor
          [of "Fin 5" "LimitLocationConstraint_new 0 ''global'' (Fin 5) NInf NInf PInf PInf"
              0 "''global''" "Fin 5" NInf NInf PInf PInf]
  by (simp add: clamp_def)

text \<open>
  C9 as stated fails at NaN: \<^verbatim>\<open>Math.max(0, NaN)\<close> and \<^verbatim>\<open>Math.min(NaN, 1)\<close> are NaN, so
  the setter stores NaN, which is not in \<open>[0, 1]\<close>.
\<close>

theorem influence_setter_counterexample:
  "influence (set_influence NaN
       (LimitLocationConstraint_new 0 ''global'' (Fin 1) NInf NInf PInf PInf)) = NaN
   \<and> \<not> in_range 0 1 (influence (set_influence NaN
       (LimitLocationConstraint_new 0 ''global'' (Fin 1) NInf NInf PInf PInf)))"
  by (simp add: influence_def set_influence_def clamp_def)

section \<open>WPhysicsModel.updateLocation\<close>

text \<open>
  C4 (amended). For every \<open>dt\<close>, \<^verbatim>\<open>updateLocation(dt)\<close> returns with
  \<open>force = (0, 0)\<close> and \<open>acceleration = (0, 0)\<close>. For \<open>dt = 0\<close> the call leaves the local
  translation and the velocity unchanged when the velocity and the acceleration the
  first step accumulates, \<open>acceleration + force \<cdot> (1 / mass)\<close>, have finite components.
\<close>

theorem updateLocation_resets_and_keeps:
  "force (P_updateLocation dt b) = Vector2 (Fin 0) (Fin 0)
   \<and> acceleration (P_updateLocation dt b) = Vector2 (Fin 0) (Fin 0)
   \<and> (finite_v (velocity b)
        \<and> finite_v (V_add (acceleration b) [V_scale (force b) (div_n (Fin 1) (mass b))])
      \<longrightarrow> T_t (local (P_updateLocation (Fin 0) b)) = T_t (local b)
          \<and> velocity (P_updateLocation (Fin 0) b) = velocity b)"
proof -
  have "velocity (P_updateLocation (Fin 0) b) = velocity b"
    if "finite_v (V_add (acceleration b) [V_scale (force b) (div_n (Fin 1) (mass b))])"
    using that by (simp add: updateLocation_velocity V_scale_zero V_add_zero)
  moreover have "T_t (local (P_updateLocation (Fin 0) b)) = T_t (local b)"
    if "velocity (P_updateLocation (Fin 0) b) = velocity b" "finite_v (velocity b)"
    using that by (simp add: updateLocation_local_t V_scale_zero V_sum_zero)
  ultimately show ?thesis
    by (simp add: updateLocation_force updateLocation_acceleration)
qed

theorem updateLocation_resets_and_keeps_witness:
  "force (P_updateLocation (Fin 0) pushed_body) = Vector2 (Fin 0) (Fin 0)
   \<and> acceleration (P_updateLocation (Fin 0) pushed_body) = Vector2 (Fin 0) (Fin 0)
   \<and> T_t (local pushed_body) = Vector2 (Fin 3) (Fin 0)
   \<and> T_t (local (P_updateLocation (Fin 0) pushed_body)) = Vector2 (Fin 3) (Fin 0)
   \<and> velocity (P_updateLocation (Fin 0) pushed_body) = Vector2 (Fin 1) (Fin 0)"
  using updateLocation_resets_and_keeps[of "Fin 0" pushed_body]
  by (simp add: pushed_body_def P_applyVelocity_def P_applyForce_def body_at_velocity
      body_at_local_t body_at_fields V_add_single V_scale_def vec2_def finite_v_def)

text \<open>
  C4 as stated fails for a body whose acceleration has an infinite component:
  \<^verbatim>\<open>Infinity * 0\<close> is NaN, so \<^verbatim>\<open>updateLocation(0)\<close> turns the velocity \<open>(0, 0)\<close> into
  \<open>(NaN, 0)\<close>.
\<close>

theorem updateLocation_zero_dt_counterexample:
  "velocity accelerated_body = Vector2 (Fin 0) (Fin 0)
   \<and> velocity (P_updateLocation (Fin 0) accelerated_body) = Vector2 NaN (Fin 0)"
  by (simp add: accelerated_body_def updateLocation_velocity P_applyAcceleration_def
      body_at_velocity body_at_fields V_add_single V_scale_def vec2_def)

section \<open>The constructor of WPhysicsModel\<close>

lemma finite_v_add: "finite_v a \<Longrightarrow> finite_v z \<Longrightarrow> finite_v (V_add a [z])"
  by (cases a; cases z; cases "vx a"; cases "vy a"; cases "vx z"; cases "vy z")
     (simp_all add: finite_v_def V_add_single)

text \<open>
  C10 (amended). A freshly constructed \<^verbatim>\<open>WPhysicsModel\<close> has \<open>force = (0, 0)\<close> and
  \<open>acceleration = (0, 0)\<close>, whatever the arguments. When the velocity and the acceleration
  passed to the constructor have finite components and \<^verbatim>\<open>this.force.scale(1 / this.mass)\<close>,
  the first value \<^verbatim>\<open>updateLocation(0)\<close> computes from the zero force and the mass, has
  finite components, the velocity and the local translation of the new body are exactly
  the velocity and the location passed; and two finite acceleration arguments give the
  same body.
\<close>

theorem constructor_drops_acceleration:
  "force (P_new l r s k m v a g) = Vector2 (Fin 0) (Fin 0)
   \<and> acceleration (P_new l r s k m v a g) = Vector2 (Fin 0) (Fin 0)
   \<and> (finite_v v \<and> finite_v a \<and> finite_v (V_scale (vec2_1 (Fin 0)) (div_n (Fin 1) m))
      \<longrightarrow> velocity (P_new l r s k m v a g) = v \<and> T_t (local (P_new l r s k m v a g)) = l)
   \<and> (finite_v a \<and> finite_v a' \<longrightarrow> P_new l r s k m v a g = P_new l r s k m v a' g)"
proof -
  have "velocity (P_new l r s k m v a g) = v"
    if "finite_v a" "finite_v (V_scale (vec2_1 (Fin 0)) (div_n (Fin 1) m))"
    using finite_v_add[OF that]
    by (simp add: new_velocity V_add_zero V_scale_zero vec2_1_def)
  moreover have "T_t (local (P_new l r s k m v a g)) = l"
    if "velocity (P_new l r s k m v a g) = v" "finite_v v"
    using that by (simp add: new_local_t V_scale_zero V_sum_zero)
  ultimately show ?thesis
    using new_independent[of a a'] by (simp add: new_force new_acceleration)
qed

theorem constructor_drops_acceleration_witness:
  "velocity (P_new (vec2 (Fin 3) (Fin 4)) (Fin 0) (vec2_1 (Fin 1)) (Fin 0) (Fin 2)
       (vec2 (Fin 1) (Fin 0)) (vec2 (Fin 5) (Fin 6)) (vec2_1 (Fin 0))) = vec2 (Fin 1) (Fin 0)
   \<and> T_t (local (P_new (vec2 (Fin 3) (Fin 4)) (Fin 0) (vec2_1 (Fin 1)) (Fin 0) (Fin 2)
       (vec2 (Fin 1) (Fin 0)) (vec2 (Fin 5) (Fin 6)) (vec2_1 (Fin 0)))) = vec2 (Fin 3) (Fin 4)
   \<and> P_new (vec2 (Fin 3) (Fin 4)) (Fin 0) (vec2_1 (Fin 1)) (Fin 0) (Fin 2)
       (vec2 (Fin 1) (Fin 0)) (vec2 (Fin 5) (Fin 6)) (vec2_1 (Fin 0))
     = P_new (vec2 (Fin 3) (Fin 4)) (Fin 0) (vec2_1 (Fin 1)) (Fin 0) (Fin 2)
       (vec2 (Fin 1) (Fin 0)) (vec2_1 (Fin 0)) (vec2_1 (Fin 0))"
proof -
  have "finite_v (vec2 (Fin 1) (Fin 0))" "finite_v (vec2 (Fin 5) (Fin 6))"
    "finite_v (vec2_1 (Fin 0))" "finite_v (V_scale (vec2_1 (Fin 0)) (div_n (Fin 1) (Fin 2)))"
    by (simp_all add: finite_v_def V_scale_def vec2_def vec2_1_def)
  then show ?thesis
    using constructor_drops_acceleration
            [of "vec2 (Fin 3) (Fin 4)" "Fin 0" "vec2_1 (Fin 1)" "Fin 0" "Fin 2"
                "vec2 (Fin 1) (Fin 0)" "vec2 (Fin 5) (Fin 6)" "vec2_1 (Fin 0)" "vec2_1 (Fin 0)"]
    by blast
qed

text \<open>
  C10 as stated fails for the acceleration argument \<open>(Infinity, 0)\<close>, every other
  argument at its default: the body is constructed with the velocity and the local
  translation \<open>(NaN, 0)\<close>, not with the \<open>(0, 0)\<close> passed. It fails for the velocity
  argument \<open>(Infinity, 0)\<close>: the local translation is \<open>(NaN, 0)\<close>, not the location
  \<open>(0, 0)\<close> passed. And it fails for the mass 0, where \<^verbatim>\<open>1 / this.mass\<close> is \<open>Infinity\<close> and
  the zero force scaled by it is \<open>(NaN, NaN)\<close>: the velocity is \<open>(NaN, NaN)\<close>.
\<close>

theorem constructor_counterexample:
  "velocity (P_new (vec2_1 (Fin 0)) (Fin 0) (vec2_1 (Fin 1)) (Fin 0) (Fin 1)
       (vec2_1 (Fin 0)) (vec2 PInf (Fin 0)) (vec2_1 (Fin 0))) = Vector2 NaN (Fin 0)
   \<and> T_t (local (P_new (vec2_1 (Fin 0)) (Fin 0) (vec2_1 (Fin 1)) (Fin 0) (Fin 1)
       (vec2_1 (Fin 0)) (vec2 PInf (Fin 0)) (vec2_1 (Fin 0)))) = Vector2 NaN (Fin 0)
   \<and> vec2_1 (Fin 0) = Vector2 (Fin 0) (Fin 0)
   \<and> T_t (local (P_new (vec2_1 (Fin 0)) (Fin 0) (vec2_1 (Fin 1)) (Fin 0) (Fin 1)
       (vec2 PInf (Fin 0)) (vec2_1 (Fin 0)) (vec2_1 (Fin 0)))) = Vector2 NaN (Fin 0)
   \<and> V_scale (vec2_1 (Fin 0)) (div_n (Fin 1) (Fin 0)) = Vector2 NaN NaN
   \<and> velocity (P_new (vec2_1 (Fin 0)) (Fin 0) (vec2_1 (Fin 1)) (Fin 0) (Fin 0)
       (vec2_1 (Fin 0)) (vec2_1 (Fin 0)) (vec2_1 (Fin 0))) = Vector2 NaN NaN"
  by (simp add: new_local_t new_velocity V_add_single V_sum_single V_scale_def vec2_def vec2_1_def)

section \<open>WSpring.solve\<close>

text \<open>An owner that is its own target: the difference of a translation with itself has
  components zero or NaN, so what is added to the force and what is taken from it
  leave the same sum.\<close>

lemma self_force:
  assumes "G = V_scale (V_dif v v) c"
  shows "V_add (V_add f [V_neg G]) [G] = V_add f [G]"
    and "V_add (V_add f [V_neg G]) [G] = V_add f [V_neg G]"
proof -
  have "vx G = mul_n (sub_n (vx v) (vx v)) c" "vy G = mul_n (sub_n (vy v) (vy v)) c"
    using assms by (simp_all add: V_scale_def V_dif_def vec2_def)
  then have x: "vx G = Fin 0 \<or> vx G = NaN" and y: "vy G = Fin 0 \<or> vy G = NaN"
    using mul_n_zero_or_nan[OF sub_n_self[of "vx v"], of c]
      mul_n_zero_or_nan[OF sub_n_self[of "vy v"], of c]
    by simp_all
  show "V_add (V_add f [V_neg G]) [G] = V_add f [G]"
    using x y by (simp add: V_add_single V_neg_def vec2_def add_neg_cancel)
  show "V_add (V_add f [V_neg G]) [G] = V_add f [V_neg G]"
    using x y by (simp add: V_add_single V_neg_def vec2_def add_neg_cancel')
qed

lemma WSpring_solve_eq:
  "WSpring_solve s w =
     (w(owner s := P_applyForce (V_neg (spring_force s w)) (w (owner s))))
       (target s := P_applyForce (spring_force s w)
          ((w(owner s := P_applyForce (V_neg (spring_force s w)) (w (owner s)))) (target s)))"
  by (simp add: WSpring_solve_def spring_force_def Let_def)

lemma spring_force_self:
  "owner s = target s \<Longrightarrow> \<exists>v c. spring_force s w = V_scale (V_dif v v) c"
  by (auto simp: spring_force_def Let_def)

lemma spring_forces:
  shows "force (WSpring_solve s w (target s)) = V_add (force (w (target s))) [spring_force s w]"
    and "force (WSpring_solve s w (owner s)) = V_add (force (w (owner s))) [V_neg (spring_force s w)]"
proof -
  show "force (WSpring_solve s w (target s)) = V_add (force (w (target s))) [spring_force s w]"
  proof (cases "owner s = target s")
    case True
    then obtain v c where "spring_force s w = V_scale (V_dif v v) c"
      using spring_force_self by blast
    from self_force(1)[OF this] True show ?thesis
      by (simp add: WSpring_solve_eq P_applyForce_def)
  next
    case False
    then show ?thesis by (simp add: WSpring_solve_eq P_applyForce_def)
  qed
  show "force (WSpring_solve s w (owner s)) = V_add (force (w (owner s))) [V_neg (spring_force s w)]"
  proof (cases "owner s = target s")
    case True
    then obtain v c where "spring_force s w = V_scale (V_dif v v) c"
      using spring_force_self by blast
    from self_force(2)[OF this] True show ?thesis
      by (simp add: WSpring_solve_eq P_applyForce_def)
  next
    case False
    then show ?thesis by (simp add: WSpring_solve_eq P_applyForce_def)
  qed
qed

lemma spring_G_nonzero:
  assumes "V_size d \<noteq> Fin 0"
  shows "V_scale d (div_n (mul_n k (sub_n (V_size d) l)) (or_n (V_size d) PInf))
       = V_scale d (div_n (mul_n k (sub_n (V_size d) l)) (V_size d))"
proof (cases "V_size d = NaN")
  case True
  then show ?thesis by (simp add: or_n_def sub_n_def)
next
  case False
  with assms show ?thesis using or_n_nonzero[of "V_size d"] by auto
qed

lemma spring_G_zero:
  assumes "V_size d = Fin 0" "isFinite k" "isFinite l"
  shows "V_scale d (div_n (mul_n k (sub_n (V_size d) l)) (or_n (V_size d) PInf))
       = Vector2 (Fin 0) (Fin 0)"
  using assms V_size_zero[of d]
  by (cases k; cases l) (simp_all add: or_n_def sub_n_def V_scale_def vec2_def)

lemma spring_G_rest:
  assumes "V_size d = l" "isFinite k" "isFinite l"
  shows "V_scale d (div_n (mul_n k (sub_n (V_size d) l)) (or_n (V_size d) PInf))
       = Vector2 (Fin 0) (Fin 0)"
proof -
  have "finite_v d" using assms V_size_finite by simp
  then obtain a b where d: "d = Vector2 (Fin a) (Fin b)"
    by (cases d; cases "vx d"; cases "vy d") (auto simp: finite_v_def)
  obtain r where l: "l = Fin r" using assms(3) by (cases l) simp_all
  obtain q where k: "k = Fin q" using assms(2) by (cases k) simp_all
  show ?thesis using assms(1) unfolding d l k
    by (simp add: or_n_def sub_n_def V_scale_def vec2_def)
qed

lemma finite_product: "isFinite (mul_n k x) \<Longrightarrow> isFinite k \<and> isFinite x"
  by (cases k; cases x) (auto split: if_splits)

lemma finite_difference: "isFinite (sub_n a l) \<Longrightarrow> isFinite a \<and> isFinite l"
  by (cases a; cases l) (auto simp: sub_n_def)

lemma solve_unchanged:
  assumes "spring_force s w = Vector2 (Fin 0) (Fin 0)"
  shows "WSpring_solve s w = w"
  using assms by (simp add: WSpring_solve_eq P_applyForce_def V_add_zero V_neg_def vec2_def)

text \<open>
  C2 (amended). With \<open>diff = owner.global.t - target.global.t\<close>, \<open>dl = |diff|\<close> and
  \<open>f = ks \<cdot> (dl - L0)\<close>, the force magnitude the code computes: when \<open>dl\<close> is not zero,
  \<^verbatim>\<open>solve()\<close> adds \<open>diff \<cdot> (f / dl)\<close> to the force of the target and its negation to the
  force of the owner; when \<open>dl = 0\<close> and \<open>f\<close> is finite, the force it adds is the zero
  vector and no body changes; when \<open>dl = L0\<close> and \<open>f\<close> is finite, no body changes. The
  owner and the target may be one body.
\<close>

theorem spring_solve_forces:
  fixes s w
  defines "diff \<equiv> V_dif (T_t (global (w (owner s)))) (T_t (global (w (target s))))"
  defines "dl \<equiv> V_size diff"
  defines "f \<equiv> mul_n (ks s) (sub_n dl (L0 s))"
  defines "F \<equiv> V_scale diff (div_n f dl)"
  shows "(dl \<noteq> Fin 0 \<longrightarrow>
            force (WSpring_solve s w (target s)) = V_add (force (w (target s))) [F]
          \<and> force (WSpring_solve s w (owner s)) = V_add (force (w (owner s))) [V_neg F])
       \<and> (dl = Fin 0 \<and> isFinite f \<longrightarrow>
            force (WSpring_solve s w (target s))
              = V_add (force (w (target s))) [Vector2 (Fin 0) (Fin 0)]
          \<and> force (WSpring_solve s w (owner s))
              = V_add (force (w (owner s))) [V_neg (Vector2 (Fin 0) (Fin 0))]
          \<and> WSpring_solve s w = w)
       \<and> (dl = L0 s \<and> isFinite f \<longrightarrow> WSpring_solve s w = w)"
proof -
  have G: "spring_force s w
             = V_scale diff (div_n (mul_n (ks s) (sub_n dl (L0 s))) (or_n dl PInf))"
    by (simp add: spring_force_def Let_def diff_def dl_def)
  have fin: "isFinite (ks s) \<and> isFinite (L0 s)" if "isFinite f"
    using that finite_product[of "ks s" "sub_n dl (L0 s)"] finite_difference[of dl "L0 s"]
    unfolding f_def by simp
  have a: "spring_force s w = F" if "dl \<noteq> Fin 0"
    using that spring_G_nonzero[of diff] unfolding G F_def f_def dl_def by simp
  have b: "spring_force s w = Vector2 (Fin 0) (Fin 0)" if "dl = Fin 0" "isFinite f"
    using that fin spring_G_zero[of diff] unfolding G dl_def by simp
  have c: "spring_force s w = Vector2 (Fin 0) (Fin 0)" if "dl = L0 s" "isFinite f"
    using that fin spring_G_rest[of diff] unfolding G dl_def by simp
  show ?thesis
    using a b c spring_forces[of s w] solve_unchanged[of s w] by auto
qed

text \<open>The spring of the spec, \<open>L0 = 10\<close> and \<open>ks = 2\<close>: with the bodies 13 apart the
  target gains the force \<open>(-6, 0)\<close> and the owner \<open>(6, 0)\<close>; with the bodies exactly 10
  apart, and with both bodies at one place, nothing changes.\<close>

theorem spring_solve_forces_witness:
  "force (WSpring_solve (spring_of (Fin 10) (Fin 2)) (two_bodies 0 (Fin 1) 13 (Fin 1)) 1)
     = Vector2 (Fin (- 6)) (Fin 0)
   \<and> force (WSpring_solve (spring_of (Fin 10) (Fin 2)) (two_bodies 0 (Fin 1) 13 (Fin 1)) 0)
     = Vector2 (Fin 6) (Fin 0)
   \<and> WSpring_solve (spring_of (Fin 10) (Fin 2)) (two_bodies 0 (Fin 1) 10 (Fin 1))
     = two_bodies 0 (Fin 1) 10 (Fin 1)
   \<and> WSpring_solve (spring_of (Fin 10) (Fin 2)) (two_bodies 0 (Fin 1) 0 (Fin 1))
     = two_bodies 0 (Fin 1) 0 (Fin 1)"
  using spring_solve_forces
          [where s = "spring_of (Fin 10) (Fin 2)" and w = "two_bodies 0 (Fin 1) 13 (Fin 1)"]
        spring_solve_forces
          [where s = "spring_of (Fin 10) (Fin 2)" and w = "two_bodies 0 (Fin 1) 10 (Fin 1)"]
        spring_solve_forces
          [where s = "spring_of (Fin 10) (Fin 2)" and w = "two_bodies 0 (Fin 1) 0 (Fin 1)"]
  by (simp add: spring_of_def two_bodies_at body_at_global_t body_at_fields V_dif_def V_size_def
      vec2_def sub_n_def V_scale_def V_neg_def V_add_single hypot_axis del: hypot_n.simps)

text \<open>
  C2 as stated fails for an infinite stiffness. With \<open>ks = Infinity\<close>, \<open>L0 = 1\<close> and both
  bodies at the origin, \<open>dl = 0\<close>, \<open>f = -Infinity\<close>, and \<^verbatim>\<open>f / Infinity\<close> is NaN: the force of
  the target, \<open>(0, 0)\<close> before, is \<open>(NaN, NaN)\<close> after \<^verbatim>\<open>solve()\<close>. With \<open>ks = Infinity\<close>,
  \<open>L0 = 10\<close> and the bodies exactly 10 apart, \<open>dl = L0\<close>, \<open>f\<close> is \<^verbatim>\<open>Infinity * 0\<close>, a NaN, and
  again the force of the target becomes \<open>(NaN, NaN)\<close>.
\<close>

theorem spring_zero_distance_counterexample:
  "V_size (V_dif (T_t (global (two_bodies 0 (Fin 1) 0 (Fin 1) 0)))
                 (T_t (global (two_bodies 0 (Fin 1) 0 (Fin 1) 1)))) = Fin 0
   \<and> force (two_bodies 0 (Fin 1) 0 (Fin 1) 1) = Vector2 (Fin 0) (Fin 0)
   \<and> force (WSpring_solve (spring_of (Fin 1) PInf) (two_bodies 0 (Fin 1) 0 (Fin 1)) 1)
     = Vector2 NaN NaN
   \<and> V_size (V_dif (T_t (global (two_bodies 0 (Fin 1) 10 (Fin 1) 0)))
                   (T_t (global (two_bodies 0 (Fin 1) 10 (Fin 1) 1)))) = Fin 10
   \<and> force (two_bodies 0 (Fin 1) 10 (Fin 1) 1) = Vector2 (Fin 0) (Fin 0)
   \<and> force (WSpring_solve (spring_of (Fin 10) PInf) (two_bodies 0 (Fin 1) 10 (Fin 1)) 1)
     = Vector2 NaN NaN"
  by (simp add: WSpring_solve_def Let_def P_applyForce_def spring_of_def two_bodies_at
      body_at_global_t body_at_fields V_dif_def V_size_def vec2_def sub_n_def V_scale_def
      V_neg_def V_add_single or_n_def hypot_axis del: hypot_n.simps)

section \<open>WRope.solve\<close>

lemma rope_self:
  "gt_n (V_size (V_dif v v)) l \<Longrightarrow>
     V_scale (V_dif v v) (div_n (sub_n (V_size (V_dif v v)) l) (V_size (V_dif v v)))
       = Vector2 NaN NaN"
  by (cases v; cases "vx v"; cases "vy v"; cases l)
     (auto simp: V_scale_def V_dif_def V_size_def vec2_def sub_n_def gt_n_def)

lemma rope_moves:
  fixes r w
  defines "dir \<equiv> V_dif (T_t (global (w (target r)))) (T_t (global (w (owner r))))"
  defines "diff \<equiv> V_size dir"
  defines "mv \<equiv> V_scale dir (div_n (sub_n diff (length_r r)) diff)"
  defines "r1 \<equiv> (if isFinite (mass (w (owner r))) \<and> isFinite (mass (w (target r)))
                 then div_n (mass (w (target r))) (add_n (mass (w (owner r))) (mass (w (target r))))
                 else if isFinite (mass (w (owner r))) then Fin 1 else Fin 0)"
  defines "r2 \<equiv> (if isFinite (mass (w (owner r))) \<and> isFinite (mass (w (target r)))
                 then div_n (mass (w (owner r))) (add_n (mass (w (owner r))) (mass (w (target r))))
                 else if isFinite (mass (w (target r))) then Fin 1 else Fin 0)"
  assumes "gt_n diff (length_r r)"
  shows "T_t (local (WRope_solve r w (owner r)))
           = V_sum (T_t (local (w (owner r)))) [V_scale mv r1]
       \<and> T_t (local (WRope_solve r w (target r)))
           = V_sum (T_t (local (w (target r)))) [V_neg (V_scale mv r2)]"
proof (cases "owner r = target r")
  case True
  then have "mv = Vector2 NaN NaN"
    using assms(6) rope_self[of "p_translate (global (w (owner r)))" "length_r r"]
    unfolding mv_def diff_def dir_def by simp
  then show ?thesis
    using assms(6) True unfolding mv_def diff_def dir_def
    by (simp add: WRope_solve_def Let_def local_applyAcceleration local_t_move V_scale_nan
        V_sum_nan)
next
  case False
  then show ?thesis
    using assms(6) unfolding mv_def diff_def dir_def r1_def r2_def
    by (simp add: WRope_solve_def Let_def local_applyAcceleration local_t_move V_scale_neg)
qed

lemma rope_example:
  assumes "m \<noteq> Fin 0" "m \<noteq> NaN"
  defines "w \<equiv> two_bodies 0 m 9 (Fin 1)"
  defines "r1 \<equiv> (if isFinite m then div_n (Fin 1) (add_n m (Fin 1)) else Fin 0)"
  defines "r2 \<equiv> (if isFinite m then div_n m (add_n m (Fin 1)) else Fin 1)"
  shows "T_t (local (WRope_solve (rope_of (Fin 5) b) w 0))
           = V_scale (Vector2 (Fin 4) (Fin 0)) r1"
    and "T_t (local (WRope_solve (rope_of (Fin 5) b) w 1))
           = V_sum (Vector2 (Fin 9) (Fin 0)) [V_neg (V_scale (Vector2 (Fin 4) (Fin 0)) r2)]"
  using rope_moves[where r = "rope_of (Fin 5) b" and w = w] assms(1,2)
  unfolding w_def r1_def r2_def
  by (simp_all add: rope_of_def two_bodies_at body_at_global_t body_at_local_t body_at_fields
      V_dif_def V_size_def vec2_def sub_n_def V_scale_def V_sum_single gt_n_def hypot_axis
      del: hypot_n.simps)

text \<open>
  C1. With \<open>dir = target.global.t - owner.global.t\<close> and \<open>diff = |dir|\<close> greater than the
  length of the rope, \<^verbatim>\<open>solve()\<close> moves the owner (its local translation, which is what
  \<^verbatim>\<open>move\<close> changes) by \<open>dir \<cdot> ((diff - length) / diff) \<cdot> r1\<close> and the target by the negation
  of \<open>dir \<cdot> ((diff - length) / diff) \<cdot> r2\<close>, with \<open>r1\<close> and \<open>r2\<close> the shares of the claim (a
  mass is finite when \<^verbatim>\<open>Number.isFinite\<close> says so). The owner and the target may be one
  body. With the owner at \<open>(0, 0)\<close>, the target at \<open>(9, 0)\<close> and the length 5, whatever the
  bounce: masses 1 and 1 leave the owner at \<open>(2, 0)\<close> and the target at \<open>(7, 0)\<close>, exactly 5
  apart; an owner of infinite mass stays at \<open>(0, 0)\<close> and the target ends at \<open>(5, 0)\<close>.
\<close>

theorem rope_solve_moves:
  fixes r w
  defines "dir \<equiv> V_dif (T_t (global (w (target r)))) (T_t (global (w (owner r))))"
  defines "diff \<equiv> V_size dir"
  defines "mv \<equiv> V_scale dir (div_n (sub_n diff (length_r r)) diff)"
  defines "r1 \<equiv> (if isFinite (mass (w (owner r))) \<and> isFinite (mass (w (target r)))
                 then div_n (mass (w (target r))) (add_n (mass (w (owner r))) (mass (w (target r))))
                 else if isFinite (mass (w (owner r))) then Fin 1 else Fin 0)"
  defines "r2 \<equiv> (if isFinite (mass (w (owner r))) \<and> isFinite (mass (w (target r)))
                 then div_n (mass (w (owner r))) (add_n (mass (w (owner r))) (mass (w (target r))))
                 else if isFinite (mass (w (target r))) then Fin 1 else Fin 0)"
  shows "(gt_n diff (length_r r) \<longrightarrow>
           T_t (local (WRope_solve r w (owner r)))
             = V_sum (T_t (local (w (owner r)))) [V_scale mv r1]
         \<and> T_t (local (WRope_solve r w (target r)))
             = V_sum (T_t (local (w (target r)))) [V_neg (V_scale mv r2)])
       \<and> T_t (local (two_bodies 0 (Fin 1) 9 (Fin 1) 0)) = Vector2 (Fin 0) (Fin 0)
       \<and> T_t (local (two_bodies 0 (Fin 1) 9 (Fin 1) 1)) = Vector2 (Fin 9) (Fin 0)
       \<and> T_t (local (WRope_solve (rope_of (Fin 5) b) (two_bodies 0 (Fin 1) 9 (Fin 1)) 0))
           = Vector2 (Fin 2) (Fin 0)
       \<and> T_t (local (WRope_solve (rope_of (Fin 5) b) (two_bodies 0 (Fin 1) 9 (Fin 1)) 1))
           = Vector2 (Fin 7) (Fin 0)
       \<and> V_size (V_dif
            (T_t (local (WRope_solve (rope_of (Fin 5) b) (two_bodies 0 (Fin 1) 9 (Fin 1)) 1)))
            (T_t (local (WRope_solve (rope_of (Fin 5) b) (two_bodies 0 (Fin 1) 9 (Fin 1)) 0))))
           = Fin 5
       \<and> T_t (local (two_bodies 0 PInf 9 (Fin 1) 0)) = Vector2 (Fin 0) (Fin 0)
       \<and> T_t (local (two_bodies 0 PInf 9 (Fin 1) 1)) = Vector2 (Fin 9) (Fin 0)
       \<and> T_t (local (WRope_solve (rope_of (Fin 5) b) (two_bodies 0 PInf 9 (Fin 1)) 0))
           = Vector2 (Fin 0) (Fin 0)
       \<and> T_t (local (WRope_solve (rope_of (Fin 5) b) (two_bodies 0 PInf 9 (Fin 1)) 1))
           = Vector2 (Fin 5) (Fin 0)"
proof -
  have general: "gt_n diff (length_r r) \<longrightarrow>
           T_t (local (WRope_solve r w (owner r)))
             = V_sum (T_t (local (w (owner r)))) [V_scale mv r1]
         \<and> T_t (local (WRope_solve r w (target r)))
             = V_sum (T_t (local (w (target r)))) [V_neg (V_scale mv r2)]"
    using rope_moves[where r = r and w = w] unfolding dir_def diff_def mv_def r1_def r2_def
    by blast
  have equal:
    "T_t (local (WRope_solve (rope_of (Fin 5) b) (two_bodies 0 (Fin 1) 9 (Fin 1)) 0))
       = Vector2 (Fin 2) (Fin 0)"
    "T_t (local (WRope_solve (rope_of (Fin 5) b) (two_bodies 0 (Fin 1) 9 (Fin 1)) 1))
       = Vector2 (Fin 7) (Fin 0)"
    using rope_example[of "Fin 1" b]
    by (simp_all add: V_scale_def V_neg_def V_sum_single vec2_def)
  have inf:
    "T_t (local (WRope_solve (rope_of (Fin 5) b) (two_bodies 0 PInf 9 (Fin 1)) 0))
       = Vector2 (Fin 0) (Fin 0)"
    "T_t (local (WRope_solve (rope_of (Fin 5) b) (two_bodies 0 PInf 9 (Fin 1)) 1))
       = Vector2 (Fin 5) (Fin 0)"
    using rope_example[of PInf b]
    by (simp_all add: V_scale_def V_neg_def V_sum_single vec2_def)
  have dist: "V_size (V_dif (Vector2 (Fin 7) (Fin 0)) (Vector2 (Fin 2) (Fin 0))) = Fin 5"
    by (simp add: V_size_def V_dif_def vec2_def sub_n_def hypot_axis del: hypot_n.simps)
  have start:
    "T_t (local (two_bodies 0 (Fin 1) 9 (Fin 1) 0)) = Vector2 (Fin 0) (Fin 0)"
    "T_t (local (two_bodies 0 (Fin 1) 9 (Fin 1) 1)) = Vector2 (Fin 9) (Fin 0)"
    "T_t (local (two_bodies 0 PInf 9 (Fin 1) 0)) = Vector2 (Fin 0) (Fin 0)"
    "T_t (local (two_bodies 0 PInf 9 (Fin 1) 1)) = Vector2 (Fin 9) (Fin 0)"
    by (simp_all add: two_bodies_at body_at_local_t)
  show ?thesis
    using general equal inf dist start by simp
qed

text \<open>The general part at masses 1 and 3: the owner moves three quarters of the
  overshoot 4, the target one quarter.\<close>

theorem rope_solve_moves_witness:
  "T_t (local (WRope_solve (rope_of (Fin 5) (Fin 0)) (two_bodies 0 (Fin 1) 9 (Fin 3)) 0))
     = Vector2 (Fin 3) (Fin 0)
   \<and> T_t (local (WRope_solve (rope_of (Fin 5) (Fin 0)) (two_bodies 0 (Fin 1) 9 (Fin 3)) 1))
     = Vector2 (Fin 8) (Fin 0)"
  using rope_solve_moves
          [where r = "rope_of (Fin 5) (Fin 0)" and w = "two_bodies 0 (Fin 1) 9 (Fin 3)"]
  by (simp add: rope_of_def two_bodies_at body_at_global_t body_at_local_t body_at_fields
      V_dif_def V_size_def vec2_def sub_n_def V_scale_def V_sum_single V_neg_def gt_n_def
      hypot_axis del: hypot_n.simps)

section \<open>calcMatrix and calcFields\<close>
















section \<open>LimitDistanceConstraint.solve\<close>

lemma global_t_mutate_translate:
  "p_translate (global (mutate_global b (T_translate x y) w b)) = Vector2 x y"
  by (simp add: mutate_global_def p_translate_translate)

text \<open>What \<^verbatim>\<open>solve()\<close> does, breach or no breach, and the length of the displacement
  \<open>dir \<cdot> (diff / dist)\<close> when the distance is a non-zero real: the absolute violation.\<close>

lemma limit_distance_breach:
  fixes c w
  defines "dir \<equiv> V_dif (T_t (resolve (ld_targetRelativity c) (target c) w))
                       (T_t (resolve (ld_ownerRelativity c) (owner c) w))"
  defines "diff \<equiv> sub_n (V_size dir) (distance c)"
  assumes "(clampRegion c = ''inside'' \<and> gt_n diff (Fin 0)) \<or>
           (clampRegion c = ''outside'' \<and> lt_n diff (Fin 0)) \<or>
           (clampRegion c = ''surface'' \<and> sne_n diff (Fin 0))"
  shows "T_t (global (LimitDistanceConstraint_solve c w (owner c)))
           = V_sum (V_scale dir (div_n diff (V_size dir))) [T_t (global (w (owner c)))]"
  using assms(3) unfolding dir_def diff_def
  by (simp add: LimitDistanceConstraint_solve_def Let_def global_t_mutate_translate nullish_n_def)

lemma limit_distance_no_breach:
  fixes c w
  defines "dir \<equiv> V_dif (T_t (resolve (ld_targetRelativity c) (target c) w))
                       (T_t (resolve (ld_ownerRelativity c) (owner c) w))"
  defines "diff \<equiv> sub_n (V_size dir) (distance c)"
  assumes "\<not> ((clampRegion c = ''inside'' \<and> gt_n diff (Fin 0)) \<or>
              (clampRegion c = ''outside'' \<and> lt_n diff (Fin 0)) \<or>
              (clampRegion c = ''surface'' \<and> sne_n diff (Fin 0)))"
  shows "LimitDistanceConstraint_solve c w = w"
  using assms(3) unfolding dir_def diff_def
  by (auto simp: LimitDistanceConstraint_solve_def Let_def)

lemma scaled_length:
  fixes a b e :: real
  assumes "a \<noteq> 0 \<or> b \<noteq> 0"
  shows "sqrt (a * (e / sqrt (a * a + b * b)) * (a * (e / sqrt (a * a + b * b)))
             + b * (e / sqrt (a * a + b * b)) * (b * (e / sqrt (a * a + b * b)))) = \<bar>e\<bar>"
proof -
  define R where "R = sqrt (a * a + b * b)"
  have pos: "0 < a * a + b * b"
    using assms by (metis add_pos_nonneg add_nonneg_pos zero_le_square not_real_square_gt_zero)
  then have R: "0 < R" by (simp add: R_def)
  have RR: "R * R = a * a + b * b" using pos by (simp add: R_def)
  have "a * (e / R) * (a * (e / R)) + b * (e / R) * (b * (e / R)) = (a * a + b * b) * (e / R)\<^sup>2"
    by (simp add: power2_eq_square algebra_simps add_divide_distrib)
  also have "\<dots> = (a * a + b * b) * (e\<^sup>2 / (a * a + b * b))"
    using RR by (simp add: power2_eq_square)
  also have "\<dots> = e\<^sup>2" using pos by auto
  finally show ?thesis unfolding R_def by simp
qed

lemma violation_displacement:
  assumes "d = Vector2 (Fin a) (Fin b)" "V_size d \<noteq> Fin 0"
  shows "V_size (V_scale d (div_n (Fin e) (V_size d))) = Fin \<bar>e\<bar>"
proof -
  have ab: "a \<noteq> 0 \<or> b \<noteq> 0" using assms by (auto simp: V_size_def)
  then have "sqrt (a * a + b * b) \<noteq> 0"
    using assms by (auto simp: V_size_def)
  then show ?thesis
    using scaled_length[OF ab, of e] by (simp add: assms(1) V_size_def V_scale_def vec2_def)
qed

text \<open>
  C6, at the input where the code breaks it. The owner and the target are both at the
  origin and the constraint keeps the owner outside the distance 1: the violation is
  \<open>-1\<close>, the region is breached, and \<^verbatim>\<open>diff / dist\<close> is \<^verbatim>\<open>-1 / 0\<close>, so that
  \<^verbatim>\<open>dir.scale(diff / dist)\<close> is \<open>(0 \<cdot> -Infinity, 0 \<cdot> -Infinity)\<close>; \<^verbatim>\<open>?? 0\<close> lets a NaN
  through, and the global translation of the owner becomes \<open>(NaN, NaN)\<close>. Away from a
  zero distance the code does what the claim says: with the bodies 9 apart and the
  owner kept inside the distance 5 it moves the owner by the violation 4 towards the
  target, and with the bodies 3 apart it changes nothing.
\<close>

theorem limit_distance_at_zero_distance:
  "T_t (global (two_bodies 0 (Fin 1) 0 (Fin 1) 0)) = Vector2 (Fin 0) (Fin 0)
   \<and> T_t (global (two_bodies 0 (Fin 1) 0 (Fin 1) 1)) = Vector2 (Fin 0) (Fin 0)
   \<and> T_t (global (LimitDistanceConstraint_solve (limit_distance_of (Fin 1) ''outside'')
         (two_bodies 0 (Fin 1) 0 (Fin 1)) 0)) = Vector2 NaN NaN
   \<and> T_t (global (LimitDistanceConstraint_solve (limit_distance_of (Fin 5) ''inside'')
         (two_bodies 0 (Fin 1) 9 (Fin 1)) 0)) = Vector2 (Fin 4) (Fin 0)
   \<and> LimitDistanceConstraint_solve (limit_distance_of (Fin 5) ''inside'')
         (two_bodies 0 (Fin 1) 3 (Fin 1)) = two_bodies 0 (Fin 1) 3 (Fin 1)"
  by (simp add: LimitDistanceConstraint_solve_def Let_def limit_distance_of_def resolve_def
      two_bodies_at body_at_global_t V_dif_def V_size_def vec2_def sub_n_def gt_n_def
      V_scale_def V_sum_single nullish_n_def global_t_mutate_translate hypot_axis
      del: hypot_n.simps)

section \<open>LimitLocationConstraint.solve\<close>

text \<open>The tests of the code on the differences are the comparisons of the baseline
  with the bounds.\<close>

lemma below_min: "gt_n (sub_n lo b) (Fin 0) = lt_n b lo"
  by (cases lo; cases b) (auto simp: sub_n_def gt_n_def)

lemma above_max: "lt_n (sub_n hi b) (Fin 0) = lt_n hi b"
  by (cases hi; cases b) (auto simp: sub_n_def)

lemma axis_full:
  "add_n g (mul_n (axis_correction (sub_n lo b) (sub_n hi b)) (Fin 1))
     = (if lt_n b lo \<and> \<not> lt_n hi b then add_n g (sub_n lo b)
        else if lt_n hi b \<and> \<not> lt_n b lo then add_n g (sub_n hi b)
        else g)"
  by (simp add: axis_correction_def below_min above_max)

lemma limit_location_global_t:
  "p_translate (global (LimitLocationConstraint_solve c w (owner c))) =
     Vector2
       (add_n (vx (p_translate (global (w (owner c)))))
          (mul_n (axis_correction
             (sub_n (vx (ll_min c)) (vx (p_translate (resolve (ll_ownerRelativity c) (owner c) w))))
             (sub_n (vx (ll_max c)) (vx (p_translate (resolve (ll_ownerRelativity c) (owner c) w)))))
           (influence c)))
       (add_n (vy (p_translate (global (w (owner c)))))
          (mul_n (axis_correction
             (sub_n (vy (ll_min c)) (vy (p_translate (resolve (ll_ownerRelativity c) (owner c) w))))
             (sub_n (vy (ll_max c)) (vy (p_translate (resolve (ll_ownerRelativity c) (owner c) w)))))
           (influence c)))"
  by (simp add: LimitLocationConstraint_solve_def Let_def global_t_mutate_translate V_dif_def
      vec2_def T_tx_def T_ty_def)

lemma displaced_owner_t:
  "p_translate (global (displaced_owner 0)) = Vector2 (Fin 3) (Fin 0)"
  "p_translate (local (displaced_owner 0)) = Vector2 (Fin 0) (Fin 0)"
  by (simp_all add: displaced_owner_def mutate_global_def p_translate_translate two_bodies_at body_at_local_t)

text \<open>
  C7 (amended). \<open>base\<close> is the translation of the baseline transform that
  \<^verbatim>\<open>ownerRelativity\<close> selects, \<open>og\<close> is \<^verbatim>\<open>owner.global\<close>, and \<open>cx\<close> and \<open>cy\<close> are the
  corrections \<^verbatim>\<open>t.x\<close> and \<^verbatim>\<open>t.y\<close> that \<^verbatim>\<open>solve()\<close> computes. With \<open>influence = 0\<close>,
  \<^verbatim>\<open>solve()\<close> leaves the translation of \<open>og\<close> as it is when both corrections are finite.
  With \<open>influence = 1\<close>, on each axis: where the baseline coordinate is below \<open>min\<close> and
  not above \<open>max\<close>, \<^verbatim>\<open>solve()\<close> adds \<open>min - base\<close> to the coordinate of \<open>og\<close>; where it is
  above \<open>max\<close> and not below \<open>min\<close>, it adds \<open>max - base\<close>; elsewhere (inside the box, or
  on both sides of an inverted box) it leaves the coordinate of \<open>og\<close>.
\<close>

theorem limit_location_clamps:
  fixes c w
  defines "og \<equiv> global (w (owner c))"
  defines "base \<equiv> T_t (resolve (ll_ownerRelativity c) (owner c) w)"
  defines "cx \<equiv> axis_correction (sub_n (vx (ll_min c)) (vx base)) (sub_n (vx (ll_max c)) (vx base))"
  defines "cy \<equiv> axis_correction (sub_n (vy (ll_min c)) (vy base)) (sub_n (vy (ll_max c)) (vy base))"
  shows "(influence c = Fin 0 \<and> isFinite cx \<and> isFinite cy
          \<longrightarrow> T_t (global (LimitLocationConstraint_solve c w (owner c))) = T_t og)
       \<and> (influence c = Fin 1
          \<longrightarrow> T_t (global (LimitLocationConstraint_solve c w (owner c))) =
                Vector2
                  (if lt_n (vx base) (vx (ll_min c)) \<and> \<not> lt_n (vx (ll_max c)) (vx base)
                   then add_n (T_tx og) (sub_n (vx (ll_min c)) (vx base))
                   else if lt_n (vx (ll_max c)) (vx base) \<and> \<not> lt_n (vx base) (vx (ll_min c))
                   then add_n (T_tx og) (sub_n (vx (ll_max c)) (vx base))
                   else T_tx og)
                  (if lt_n (vy base) (vy (ll_min c)) \<and> \<not> lt_n (vy (ll_max c)) (vy base)
                   then add_n (T_ty og) (sub_n (vy (ll_min c)) (vy base))
                   else if lt_n (vy (ll_max c)) (vy base) \<and> \<not> lt_n (vy base) (vy (ll_min c))
                   then add_n (T_ty og) (sub_n (vy (ll_max c)) (vy base))
                   else T_ty og))"
proof -
  have t: "T_t (global (LimitLocationConstraint_solve c w (owner c))) =
             Vector2 (add_n (T_tx og) (mul_n cx (influence c)))
                     (add_n (T_ty og) (mul_n cy (influence c)))"
    unfolding og_def base_def cx_def cy_def
    by (simp add: limit_location_global_t T_tx_def T_ty_def)
  have one: "T_t (global (LimitLocationConstraint_solve c w (owner c))) = T_t og"
    if "influence c = Fin 0" "isFinite cx" "isFinite cy"
    using that unfolding t by (simp add: mul_n_fin_zero T_tx_def T_ty_def)
  have two: "T_t (global (LimitLocationConstraint_solve c w (owner c))) =
                Vector2
                  (if lt_n (vx base) (vx (ll_min c)) \<and> \<not> lt_n (vx (ll_max c)) (vx base)
                   then add_n (T_tx og) (sub_n (vx (ll_min c)) (vx base))
                   else if lt_n (vx (ll_max c)) (vx base) \<and> \<not> lt_n (vx base) (vx (ll_min c))
                   then add_n (T_tx og) (sub_n (vx (ll_max c)) (vx base))
                   else T_tx og)
                  (if lt_n (vy base) (vy (ll_min c)) \<and> \<not> lt_n (vy (ll_max c)) (vy base)
                   then add_n (T_ty og) (sub_n (vy (ll_min c)) (vy base))
                   else if lt_n (vy (ll_max c)) (vy base) \<and> \<not> lt_n (vy base) (vy (ll_min c))
                   then add_n (T_ty og) (sub_n (vy (ll_max c)) (vy base))
                   else T_ty og)"
    if "influence c = Fin 1"
    unfolding t that cx_def cy_def by (simp only: axis_full)
  show ?thesis using one two by blast
qed

text \<open>The box \<open>1 \<le> x \<le> 5\<close>: with the influence 0 the owner at \<open>(0, 0)\<close> stays; with the
  influence 1 it ends at \<open>0 + (1 - 0)\<close>, and an owner at \<open>(9, 0)\<close>, resolved as \<^verbatim>\<open>'local'\<close>
  with equal local and global translations, ends at \<open>9 + (5 - 9)\<close>.\<close>

theorem limit_location_clamps_witness:
  "T_t (global (LimitLocationConstraint_solve
        (LimitLocationConstraint_new 0 ''global'' (Fin 0) (Fin 1) NInf (Fin 5) PInf)
        (two_bodies 0 (Fin 1) 9 (Fin 1)) 0)) = Vector2 (Fin 0) (Fin 0)
   \<and> T_t (global (LimitLocationConstraint_solve
        (LimitLocationConstraint_new 0 ''global'' (Fin 1) (Fin 1) NInf (Fin 5) PInf)
        (two_bodies 0 (Fin 1) 9 (Fin 1)) 0)) = Vector2 (Fin 1) (Fin 0)
   \<and> T_t (global (LimitLocationConstraint_solve
        (LimitLocationConstraint_new 1 ''local'' (Fin 1) (Fin 1) NInf (Fin 5) PInf)
        (two_bodies 0 (Fin 1) 9 (Fin 1)) 1)) = Vector2 (Fin 5) (Fin 0)"
  using limit_location_clamps
          [where c = "LimitLocationConstraint_new 0 ''global'' (Fin 0) (Fin 1) NInf (Fin 5) PInf"
             and w = "two_bodies 0 (Fin 1) 9 (Fin 1)"]
        limit_location_clamps
          [where c = "LimitLocationConstraint_new 0 ''global'' (Fin 1) (Fin 1) NInf (Fin 5) PInf"
             and w = "two_bodies 0 (Fin 1) 9 (Fin 1)"]
        limit_location_clamps
          [where c = "LimitLocationConstraint_new 1 ''local'' (Fin 1) (Fin 1) NInf (Fin 5) PInf"
             and w = "two_bodies 0 (Fin 1) 9 (Fin 1)"]
  by (simp add: LimitLocationConstraint_new_def influence_def resolve_def two_bodies_at
      body_at_global_t body_at_local_t axis_correction_def sub_n_def gt_n_def T_tx_def T_ty_def
      vec2_def)

text \<open>
  C7 as stated fails in three ways. For \<^verbatim>\<open>ownerRelativity = 'local'\<close>, once the global
  translation has left the local one: with \<open>minX = 1\<close> and \<open>influence = 1\<close>, the local
  translation \<open>(0, 0)\<close> is outside the box and the correction is 1 along \<open>x\<close>; it is added
  to the global translation \<open>(3, 0)\<close>, which becomes \<open>(4, 0)\<close>, not the bound \<open>(1, 0)\<close>. For
  an inverted box: with \<open>minX = 6\<close>, \<open>maxX = 2\<close> and \<open>influence = 1\<close>, the owner at
  \<open>(4, 0)\<close> is below \<open>minX\<close> and above \<open>maxX\<close>, and stays at \<open>(4, 0)\<close>, on neither bound.
  For \<open>influence = 0\<close> with an infinite correction: with \<open>minX = Infinity\<close> the correction
  along \<open>x\<close> is \<open>Infinity\<close>, \<^verbatim>\<open>Infinity * 0\<close> is NaN, and the translation \<open>(0, 0)\<close> becomes
  \<open>(NaN, 0)\<close>.
\<close>

theorem limit_location_local_counterexample:
  "T_t (local (displaced_owner 0)) = Vector2 (Fin 0) (Fin 0)
   \<and> lt_n (vx (T_t (local (displaced_owner 0)))) (Fin 1)
   \<and> T_t (global (displaced_owner 0)) = Vector2 (Fin 3) (Fin 0)
   \<and> T_t (global (LimitLocationConstraint_solve
        (LimitLocationConstraint_new 0 ''local'' (Fin 1) (Fin 1) NInf PInf PInf)
        displaced_owner 0)) = Vector2 (Fin 4) (Fin 0)
   \<and> T_t (global (two_bodies 4 (Fin 1) 9 (Fin 1) 0)) = Vector2 (Fin 4) (Fin 0)
   \<and> T_t (global (LimitLocationConstraint_solve
        (LimitLocationConstraint_new 0 ''global'' (Fin 1) (Fin 6) NInf (Fin 2) PInf)
        (two_bodies 4 (Fin 1) 9 (Fin 1)) 0)) = Vector2 (Fin 4) (Fin 0)
   \<and> T_t (global (two_bodies 0 (Fin 1) 9 (Fin 1) 0)) = Vector2 (Fin 0) (Fin 0)
   \<and> T_t (global (LimitLocationConstraint_solve
        (LimitLocationConstraint_new 0 ''global'' (Fin 0) PInf NInf PInf PInf)
        (two_bodies 0 (Fin 1) 9 (Fin 1)) 0)) = Vector2 NaN (Fin 0)"
  using limit_location_global_t
          [of "LimitLocationConstraint_new 0 ''local'' (Fin 1) (Fin 1) NInf PInf PInf"
              displaced_owner]
        limit_location_global_t
          [of "LimitLocationConstraint_new 0 ''global'' (Fin 1) (Fin 6) NInf (Fin 2) PInf"
              "two_bodies 4 (Fin 1) 9 (Fin 1)"]
        limit_location_global_t
          [of "LimitLocationConstraint_new 0 ''global'' (Fin 0) PInf NInf PInf PInf"
              "two_bodies 0 (Fin 1) 9 (Fin 1)"]
  by (simp add: LimitLocationConstraint_new_def influence_def resolve_def two_bodies_at
      body_at_global_t displaced_owner_t axis_correction_def sub_n_def gt_n_def vec2_def)

end
